theory Spec2Isabelle
  imports Complex_Main "HOL-Library.Sublist"
begin

section \<open>JavaScript values\<close>

text \<open>
  A JavaScript number is a double. Its finite values are modelled as reals; \<open>NaN\<close> and
  the two infinities are kept apart because every comparison with \<open>NaN\<close> is false. The
  guardrail only multiplies the factors 0.7, 0.6, 0.8 and 0.9 and forms one quotient of
  two lengths, and its arithmetic is written exactly; the arithmetic of the matcher and
  of the normalizer is written with the rounding of doubles, see below.
\<close>

datatype jsnum = NaN | NegInf | Fin real | PosInf

text \<open>Comparison of a number with a finite constant: \<open>a < b\<close>, \<open>a > b\<close>, \<open>a >= b\<close>, \<open>a <= b\<close>.\<close>

fun num_lt :: "jsnum \<Rightarrow> real \<Rightarrow> bool" where
  "num_lt NaN b = False"
| "num_lt NegInf b = True"
| "num_lt (Fin a) b = (a < b)"
| "num_lt PosInf b = False"

fun num_gt :: "jsnum \<Rightarrow> real \<Rightarrow> bool" where
  "num_gt NaN b = False"
| "num_gt NegInf b = False"
| "num_gt (Fin a) b = (a > b)"
| "num_gt PosInf b = True"

fun num_ge :: "jsnum \<Rightarrow> real \<Rightarrow> bool" where
  "num_ge NaN b = False"
| "num_ge NegInf b = False"
| "num_ge (Fin a) b = (a \<ge> b)"
| "num_ge PosInf b = True"

fun num_le :: "jsnum \<Rightarrow> real \<Rightarrow> bool" where
  "num_le NaN b = False"
| "num_le NegInf b = True"
| "num_le (Fin a) b = (a \<le> b)"
| "num_le PosInf b = False"

text \<open>
  An arbitrary JavaScript value, as far as the code tells values apart: by \<open>typeof\<close>,
  by truthiness and by comparison with \<open>undefined\<close>, \<open>null\<close> and \<open>''\<close>.
\<close>

datatype jsval = JUndefined | JNull | JString string | JNumber jsnum | JBool bool | JObject

text \<open>
  A property that holds a string when it is there. After the structure check of the
  guardrail the name, the unit and the status of a record are non-empty strings, and the
  code calls string methods on them.
\<close>

datatype strfield = SUndefined | SNull | SString string

text \<open>What a template literal \<open>`${x}`\<close> prints for such a property.\<close>

fun show_field :: "strfield \<Rightarrow> string" where
  "show_field SUndefined = ''undefined''"
| "show_field SNull = ''null''"
| "show_field (SString s) = s"

fun the_str :: "strfield \<Rightarrow> string" where
  "the_str (SString s) = s"
| "the_str _ = []"

section \<open>Strings\<close>

text \<open>
  Strings are sequences of code units below 256 (Latin-1). \<open>toLowerCase\<close> maps
  \<open>A\<close>-\<open>Z\<close> (65 to 90) and the upper-case letters of Latin-1 (192 to 222 except 215) to
  the letter 32 places further, which is the same code with bit 5 set. The functions on
  characters are written on the bits of the code, lowest bit first; the lemmas
  \<open>lower_char_code\<close>, \<open>is_ws_code\<close> and \<open>is_lower_alnum_code\<close> below state them on the
  number of the character.
\<close>

fun lower_char :: "char \<Rightarrow> char" where
  "lower_char (Char b0 b1 b2 b3 b4 b5 b6 b7) =
     (if b6 \<and> \<not> b5 \<and>
         (if b7 then \<not> (b4 \<and> b2 \<and> b1 \<and> b0)
          else (b0 \<or> b1 \<or> b2 \<or> b3 \<or> b4) \<and> \<not> (b4 \<and> b3 \<and> (b2 \<or> (b1 \<and> b0))))
      then Char b0 b1 b2 b3 b4 True b6 b7
      else Char b0 b1 b2 b3 b4 b5 b6 b7)"

definition toLowerCase :: "string \<Rightarrow> string" where
  "toLowerCase s = map lower_char s"

text \<open>
  White space as \<open>\s\<close> and \<open>trim\<close> see it: TAB, LF, VT, FF, CR (9 to 13), SPACE (32) and
  NBSP (160).
\<close>

fun is_ws :: "char \<Rightarrow> bool" where
  "is_ws (Char b0 b1 b2 b3 b4 b5 b6 b7) =
     (if b5 then \<not> b0 \<and> \<not> b1 \<and> \<not> b2 \<and> \<not> b3 \<and> \<not> b4 \<and> \<not> b6
      else \<not> b7 \<and> \<not> b6 \<and> \<not> b4 \<and> b3 \<and> (b0 \<or> b1 \<or> b2) \<and> \<not> (b2 \<and> b1))"

definition trim :: "string \<Rightarrow> string" where
  "trim s = rev (dropWhile is_ws (rev (dropWhile is_ws s)))"

text \<open>\<open>s.includes(sub)\<close>: \<open>sub\<close> occurs in \<open>s\<close> as a contiguous block.\<close>

fun str_includes :: "string \<Rightarrow> string \<Rightarrow> bool" where
  "str_includes [] sub = (sub = [])"
| "str_includes (c # cs) sub = (prefix sub (c # cs) \<or> str_includes cs sub)"

text \<open>
  \<open>s.split(/\s+/)\<close>: the pieces between maximal runs of white space. A string that starts
  or ends with white space yields an empty first or last piece, and the empty string
  yields one empty piece.
\<close>

function split_ws :: "string \<Rightarrow> string list" where
  "split_ws [] = [[]]"
| "split_ws (c # cs) =
     (if is_ws c then [] # split_ws (dropWhile is_ws cs)
      else (case split_ws cs of [] \<Rightarrow> [[c]] | w # ws \<Rightarrow> (c # w) # ws))"
  by pat_completeness auto
termination
  by (relation "measure length") (auto simp: le_imp_less_Suc length_dropWhile_le)

text \<open>
  The class \<open>[a-z0-9\s]\<close> of the regular expression in the guardrail: \<open>a\<close>-\<open>z\<close> (97
  to 122), \<open>0\<close>-\<open>9\<close> (48 to 57) and white space.
\<close>

fun is_lower_alnum :: "char \<Rightarrow> bool" where
  "is_lower_alnum (Char b0 b1 b2 b3 b4 b5 b6 b7) =
     (\<not> b7 \<and> b5 \<and>
      (if b6 then (b0 \<or> b1 \<or> b2 \<or> b3 \<or> b4) \<and> \<not> (b4 \<and> b3 \<and> (b2 \<or> (b1 \<and> b0)))
       else b4 \<and> \<not> (b3 \<and> (b2 \<or> b1))))"

definition is_lower_alnum_ws :: "char \<Rightarrow> bool" where
  "is_lower_alnum_ws c = (is_lower_alnum c \<or> is_ws c)"

text \<open>\<open>originalText.toLowerCase().replace(/[^a-z0-9\s]/g, ' ')\<close>\<close>

definition normalize_text :: "string \<Rightarrow> string" where
  "normalize_text s =
     map (\<lambda>c. if is_lower_alnum_ws c then c else CHR '' '') (toLowerCase s)"

section \<open>Levenshtein distance (guardrailService.js and similarityMatcher.js)\<close>

text \<open>
  Both classes carry the same method \<open>levenshteinDistance(str1, str2)\<close>. It fills a matrix
  with one row for every prefix of \<open>str2\<close> and one column for every prefix of \<open>str1\<close>:
  row 0 is \<open>0, 1, ..., str1.length\<close>, every row \<open>i\<close> starts with \<open>i\<close>, and the entry at
  \<open>(i, j)\<close> is the diagonal neighbour when the two characters agree and otherwise one more
  than the least of the diagonal, left and upper neighbours. The result is the last entry
  of the last row. The model keeps one row at a time.
\<close>

fun fill_row :: "char \<Rightarrow> string \<Rightarrow> nat list \<Rightarrow> nat \<Rightarrow> nat \<Rightarrow> nat list" where
  "fill_row c [] ups diag left = []"
| "fill_row c (a # as) [] diag left = []"
| "fill_row c (a # as) (up # ups) diag left =
     (let v = (if c = a then diag else min (min (diag + 1) (left + 1)) (up + 1))
      in v # fill_row c as ups up v)"

definition next_row :: "nat \<Rightarrow> char \<Rightarrow> string \<Rightarrow> nat list \<Rightarrow> nat list" where
  "next_row i c str1 prev = i # fill_row c str1 (tl prev) (hd prev) i"

fun lev_rows :: "nat \<Rightarrow> string \<Rightarrow> string \<Rightarrow> nat list \<Rightarrow> nat list" where
  "lev_rows i [] str1 prev = prev"
| "lev_rows i (c # cs) str1 prev = lev_rows (Suc i) cs str1 (next_row i c str1 prev)"

definition levenshteinDistance :: "string \<Rightarrow> string \<Rightarrow> nat" where
  "levenshteinDistance str1 str2 = last (lev_rows 1 str2 str1 [0..<Suc (length str1)])"

text \<open>
  \<open>GuardrailService.calculateSimilarity\<close>: \<open>1 - distance / maxLength\<close>, which is \<open>NaN\<close>
  (\<open>0 / 0\<close>) when both strings are empty.
\<close>

definition calculateSimilarity :: "string \<Rightarrow> string \<Rightarrow> jsnum" where
  "calculateSimilarity str1 str2 =
     (let maxLength = max (length str1) (length str2);
          distance = levenshteinDistance str1 str2
      in if maxLength = 0 then NaN else Fin (1 - real distance / real maxLength))"

section \<open>Objects used as dictionaries\<close>

text \<open>
  The tables of the services and the catalog are object literals, and \<open>obj[k]\<close> reads
  them along the prototype chain: when the object has no property \<open>k\<close> of its own, the
  property of \<open>Object.prototype\<close> with that name is found. An object literal is the list
  of its own entries; \<open>object_prototype\<close> lists the names that \<open>Object.prototype\<close>
  defines. Every inherited member is a function, except \<open>__proto__\<close>, which reads
  \<open>Object.prototype\<close> itself; all of them count as true in a condition.
\<close>

definition object_prototype :: "string list" where
  "object_prototype =
     [''constructor'', ''__defineGetter__'', ''__defineSetter__'', ''hasOwnProperty'',
      ''__lookupGetter__'', ''__lookupSetter__'', ''isPrototypeOf'', ''propertyIsEnumerable'',
      ''toString'', ''valueOf'', ''__proto__'', ''toLocaleString'']"

datatype 'a property = Own 'a | Inherited string | Absent

definition get_property :: "(string \<times> 'a) list \<Rightarrow> string \<Rightarrow> 'a property" where
  "get_property obj k =
     (case map_of obj k of
        Some v \<Rightarrow> Own v
      | None \<Rightarrow> if List.member object_prototype k then Inherited k else Absent)"

text \<open>The exception that the modelled code throws on the inputs considered here.\<close>

datatype error = TypeError

section \<open>The catalog (knowledgeBase.js)\<close>

text \<open>
  A catalog entry, with the properties the services read. Every property may be missing.
  The catalog is the list \<open>Object.entries(knowledgeBase)\<close> of a plain object.
\<close>

record kb_entry =
  e_name :: "string option"
  e_unit :: "string option"
  e_aliases :: "string list option"
  e_ref_range :: "(real \<times> real) option"
  e_normalRange :: "(real \<times> real) option"
  e_physicalLimits :: "(real \<times> real) option"

type_synonym knowledge_base = "(string \<times> kb_entry) list"

text \<open>
  What the services read from an inherited member when they take it for a catalog entry:
  a function has a \<open>name\<close> (the constructor is the function \<open>Object\<close>, every other function
  is named like the property), \<open>Object.prototype\<close> has none, and none of them has a unit,
  aliases, a range or limits.
\<close>

definition member_entry :: "string \<Rightarrow> kb_entry" where
  "member_entry k =
     \<lparr>e_name = (if k = ''__proto__'' then None
                else if k = ''constructor'' then Some ''Object''
                else Some k),
      e_unit = None, e_aliases = None, e_ref_range = None, e_normalRange = None,
      e_physicalLimits = None\<rparr>"

text \<open>\<open>knowledgeBase[k]\<close>, when it counts as true.\<close>

definition kb_get :: "knowledge_base \<Rightarrow> string \<Rightarrow> kb_entry option" where
  "kb_get kb k =
     (case get_property kb k of
        Own d \<Rightarrow> Some d
      | Inherited m \<Rightarrow> Some (member_entry m)
      | Absent \<Rightarrow> None)"

text \<open>A key that may be \<open>null\<close>, used as a property name: \<open>obj[null]\<close> reads \<open>obj["null"]\<close>.\<close>

fun key_str :: "string option \<Rightarrow> string" where
  "key_str None = ''null''"
| "key_str (Some k) = k"

section \<open>GuardrailService (services/guardrailService.js)\<close>

subsection \<open>Records and the constructor's tables\<close>

text \<open>
  An extracted test. The value may be any JavaScript value: the guardrail asks for its
  type before it compares it.
\<close>

record test =
  t_name :: strfield
  t_value :: jsval
  t_unit :: strfield
  t_status :: strfield

definition physicalLimits :: "(string \<times> real \<times> real) list" where
  "physicalLimits =
     [(''hemoglobin'', 0, 30),
      (''glucose'', 0, 2000),
      (''cholesterol_total'', 0, 1000),
      (''creatinine'', 0, 50),
      (''wbc'', 0, 100000),
      (''platelet_count'', 0, 2000000),
      (''sodium'', 100, 200),
      (''potassium'', 0, 15)]"

text \<open>
  \<open>buildAliasMap\<close>: for every entry in turn the lower-cased key, the lower-cased display
  name (when it is a non-empty string) and the lower-cased aliases are set to the key; a
  later \<open>set\<close> replaces an earlier one.
\<close>

definition alias_bindings :: "string \<Rightarrow> kb_entry \<Rightarrow> (string \<times> string) list" where
  "alias_bindings key data =
     [(toLowerCase key, key)]
     @ (case e_name data of
          None \<Rightarrow> []
        | Some n \<Rightarrow> if n = [] then [] else [(toLowerCase n, key)])
     @ (case e_aliases data of
          None \<Rightarrow> []
        | Some as \<Rightarrow> map (\<lambda>alias. (toLowerCase alias, key)) as)"

definition buildAliasMap :: "knowledge_base \<Rightarrow> (string \<rightharpoonup> string)" where
  "buildAliasMap kb =
     fold (\<lambda>(key, data) m. fold (\<lambda>(k, v) m'. m'(k \<mapsto> v)) (alias_bindings key data) m)
       kb Map.empty"

text \<open>\<open>normalizeTestName\<close>: \<open>this.aliasMap.get(normalizedInput) || null\<close>.\<close>

definition normalizeTestName :: "knowledge_base \<Rightarrow> string \<Rightarrow> string option" where
  "normalizeTestName kb testName =
     (let normalizedInput = trim (toLowerCase testName)
      in case buildAliasMap kb normalizedInput of
           None \<Rightarrow> None
         | Some k \<Rightarrow> if k = [] then None else Some k)"

subsection \<open>The checks on one record\<close>

definition field_ok :: "strfield \<Rightarrow> bool" where
  "field_ok f = (case f of SString s \<Rightarrow> s \<noteq> [] | _ \<Rightarrow> False)"

definition value_ok :: "jsval \<Rightarrow> bool" where
  "value_ok v = (case v of JUndefined \<Rightarrow> False | JNull \<Rightarrow> False | JString s \<Rightarrow> s \<noteq> [] | _ \<Rightarrow> True)"

definition isValidTestStructure :: "test \<Rightarrow> bool" where
  "isValidTestStructure t =
     (field_ok (t_name t) \<and> value_ok (t_value t) \<and> field_ok (t_unit t) \<and> field_ok (t_status t))"

definition variations :: "(string \<times> string list) list" where
  "variations =
     [(''hemoglobin'', [''hgb'', ''hb'', ''hemglobin'', ''haemoglobin'']),
      (''wbc'', [''white blood cell'', ''white blood cells'', ''wbc count'', ''leukocyte'']),
      (''rbc'', [''red blood cell'', ''red blood cells'', ''rbc count'', ''erythrocyte'']),
      (''glucose'', [''blood glucose'', ''sugar'', ''glucse'', ''glukose'']),
      (''creatinine'', [''creat'', ''cretinine'']),
      (''cholesterol_total'', [''cholesterol'', ''chol'', ''cholestrol'']),
      (''platelet_count'', [''platelets'', ''plt'', ''platlet'', ''thrombocyte''])]"

text \<open>
  \<open>getCommonVariations\<close>: \<open>variations[testName] || [testName]\<close>. For a name that
  \<open>Object.prototype\<close> defines the value is the inherited member, which is no array and
  cannot be iterated; it is \<open>None\<close> here.
\<close>

definition getCommonVariations :: "string \<Rightarrow> string list option" where
  "getCommonVariations testName =
     (case get_property variations testName of
        Own vs \<Rightarrow> Some vs
      | Inherited m \<Rightarrow> None
      | Absent \<Rightarrow> Some [testName])"

text \<open>
  \<open>fuzzyMatchInText\<close>: the loop over the pieces of the text returns at the first piece of
  three or more characters whose similarity to the name exceeds 0.7.
\<close>

fun fuzzy_words :: "string \<Rightarrow> string list \<Rightarrow> bool" where
  "fuzzy_words testName [] = False"
| "fuzzy_words testName (word # words) =
     (if 3 \<le> length word \<and> num_gt (calculateSimilarity testName word) 0.7 then True
      else fuzzy_words testName words)"

definition fuzzyMatchInText :: "string \<Rightarrow> string \<Rightarrow> bool" where
  "fuzzyMatchInText testName txt = fuzzy_words testName (split_ws txt)"

text \<open>The loops over the aliases and over the variations return at the first hit.\<close>

fun any_included :: "string \<Rightarrow> string list \<Rightarrow> bool" where
  "any_included normalizedText [] = False"
| "any_included normalizedText (v # vs) =
     (if str_includes normalizedText v then True else any_included normalizedText vs)"

definition mentioned_testData :: "knowledge_base \<Rightarrow> string \<Rightarrow> kb_entry option" where
  "mentioned_testData kb testName =
     (case kb_get kb (toLowerCase testName) of
        Some d \<Rightarrow> Some d
      | None \<Rightarrow> kb_get kb (key_str (normalizeTestName kb testName)))"

definition alias_mentioned :: "knowledge_base \<Rightarrow> string \<Rightarrow> string \<Rightarrow> bool" where
  "alias_mentioned kb testName normalizedText =
     (case mentioned_testData kb testName of
        None \<Rightarrow> False
      | Some d \<Rightarrow>
          (case e_aliases d of
             None \<Rightarrow> False
           | Some as \<Rightarrow> any_included normalizedText (map toLowerCase as)))"

text \<open>
  \<open>isTestMentionedInOriginal\<close>. The loop \<open>for (const variation of commonVariations)\<close>
  throws a \<open>TypeError\<close> when the value is not iterable.
\<close>

definition isTestMentionedInOriginal ::
  "knowledge_base \<Rightarrow> string \<Rightarrow> jsval \<Rightarrow> error + bool" where
  "isTestMentionedInOriginal kb testName originalText =
     (case originalText of
        JString txt \<Rightarrow>
          if txt = [] then Inr True
          else
            (let normalizedText = normalize_text txt;
                 testNameLower = toLowerCase testName
             in if str_includes normalizedText testNameLower then Inr True
                else if alias_mentioned kb testName normalizedText then Inr True
                else
                  (case getCommonVariations testNameLower of
                     None \<Rightarrow> Inl TypeError
                   | Some commonVariations \<Rightarrow>
                       if any_included normalizedText commonVariations then Inr True
                       else Inr (fuzzyMatchInText testNameLower normalizedText)))
      | _ \<Rightarrow> Inr True)"

text \<open>
  \<open>isValueRealistic\<close>: the limits are those of the constructor's table, looked up under the
  lower-cased name and then under the key the name resolves to. An inherited member has
  neither \<open>min\<close> nor \<open>max\<close>, and a number compared with \<open>undefined\<close> gives false.
\<close>

definition isValueRealistic :: "knowledge_base \<Rightarrow> test \<Rightarrow> bool" where
  "isValueRealistic kb t =
     (let testKey = toLowerCase (the_str (t_name t));
          normalizedKey = normalizeTestName kb (the_str (t_name t));
          limits = (case get_property physicalLimits testKey of
                      Absent \<Rightarrow> get_property physicalLimits (key_str normalizedKey)
                    | found \<Rightarrow> found)
      in case limits of
           Absent \<Rightarrow> True
         | Own (mn, mx) \<Rightarrow>
             (case t_value t of
                JNumber v \<Rightarrow> num_ge v mn \<and> num_le v mx
              | _ \<Rightarrow> True)
         | Inherited m \<Rightarrow>
             (case t_value t of
                JNumber v \<Rightarrow> False
              | _ \<Rightarrow> True))"

text \<open>
  The table of unit variants in \<open>isUnitValid\<close>. The source lists a further variant of
  \<open>/uL\<close> written with a Greek mu and an upper-case L; the unit is lower-cased before the
  comparison, so it equals no such entry, and the entry is left out here.
\<close>

definition unitVariations :: "(string \<times> string list) list" where
  "unitVariations =
     [(''g/dL'', [''g/dl'', ''gm/dl'', ''gram/dl'']),
      (''/uL'', [''/ul'', ''per ul'', ''/microL'']),
      (''mg/dL'', [''mg/dl'', ''mgdl'']),
      (''%'', [''percent'', ''pct''])]"

text \<open>
  \<open>isUnitValid\<close>. When the unit of the entry is a name that \<open>Object.prototype\<close> defines,
  \<open>unitVariations[testData.unit]\<close> is the inherited member, which has no method
  \<open>includes\<close>, and the call throws a \<open>TypeError\<close>.
\<close>

definition isUnitValid :: "knowledge_base \<Rightarrow> test \<Rightarrow> error + bool" where
  "isUnitValid kb t =
     (let normalizedKey = normalizeTestName kb (the_str (t_name t));
          testData = kb_get kb (key_str normalizedKey)
      in case testData of
           None \<Rightarrow> Inr True
         | Some d \<Rightarrow>
             (case e_unit d of
                None \<Rightarrow> Inr True
              | Some u \<Rightarrow>
                  if u = [] then Inr True
                  else if the_str (t_unit t) = u then Inr True
                  else
                    (case get_property unitVariations u of
                       Own expectedVariations \<Rightarrow>
                         Inr (List.member expectedVariations (toLowerCase (the_str (t_unit t))))
                     | Inherited m \<Rightarrow> Inl TypeError
                     | Absent \<Rightarrow> Inr False)))"

definition isStatusConsistent :: "knowledge_base \<Rightarrow> test \<Rightarrow> bool" where
  "isStatusConsistent kb t =
     (let normalizedKey = normalizeTestName kb (the_str (t_name t));
          testData = kb_get kb (key_str normalizedKey)
      in case testData of
           None \<Rightarrow> True
         | Some d \<Rightarrow>
             (case e_normalRange d of
                None \<Rightarrow> True
              | Some (low, high) \<Rightarrow>
                  (case t_value t of
                     JNumber v \<Rightarrow>
                       (let st = toLowerCase (the_str (t_status t))
                        in if num_lt v low \<and> st \<noteq> ''low'' then False
                           else if num_gt v high \<and> st \<noteq> ''high'' then False
                           else if num_ge v low \<and> num_le v high \<and> st \<noteq> ''normal'' then False
                           else True)
                   | _ \<Rightarrow> True)))"

subsection \<open>validateSingleTest\<close>

text \<open>
  The code never reads the text of a warning, so a warning is kept as the kind of the
  message with the record it is about. A rejection reason is kept as the string it is,
  because \<open>validateTests\<close> searches it.
\<close>

datatype warning =
    UnknownTest test
  | UnrealisticValue test
  | UnexpectedUnit test
  | StatusMismatch test

record single_result =
  isValid :: bool
  r_warnings :: "warning list"
  r_confidence :: real
  rejectionReason :: "string option"

definition add_warning :: "warning \<Rightarrow> real \<Rightarrow> single_result \<Rightarrow> single_result" where
  "add_warning w factor r =
     r\<lparr>r_warnings := r_warnings r @ [w], r_confidence := r_confidence r * factor\<rparr>"

definition reject :: "string \<Rightarrow> single_result \<Rightarrow> single_result" where
  "reject why r = r\<lparr>isValid := False, rejectionReason := Some why\<rparr>"

definition structure_reason :: "test \<Rightarrow> string" where
  "structure_reason t = ''Invalid test structure for '' @ show_field (t_name t)"

definition hallucination_reason :: "test \<Rightarrow> string" where
  "hallucination_reason t =
     ''Test '' @ [CHR 0x27] @ show_field (t_name t) @ [CHR 0x27]
       @ '' not found in original text - potential hallucination''"

text \<open>An exception thrown by one of the checks leaves \<open>validateSingleTest\<close> as it is.\<close>

definition validateSingleTest ::
  "knowledge_base \<Rightarrow> test \<Rightarrow> jsval \<Rightarrow> error + single_result" where
  "validateSingleTest kb t originalText =
     (let r0 = \<lparr>isValid = True, r_warnings = [], r_confidence = 1, rejectionReason = None\<rparr>
      in if \<not> isValidTestStructure t then Inr (reject (structure_reason t) r0)
         else
           (let r1 = (if normalizeTestName kb (the_str (t_name t)) = None
                      then add_warning (UnknownTest t) 0.7 r0 else r0)
            in case isTestMentionedInOriginal kb (the_str (t_name t)) originalText of
                 Inl e \<Rightarrow> Inl e
               | Inr mentioned \<Rightarrow>
                   if \<not> mentioned then Inr (reject (hallucination_reason t) r1)
                   else
                     (let r2 = (if \<not> isValueRealistic kb t
                                then add_warning (UnrealisticValue t) 0.6 r1 else r1)
                      in case isUnitValid kb t of
                           Inl e \<Rightarrow> Inl e
                         | Inr unitValid \<Rightarrow>
                             (let r3 = (if \<not> unitValid
                                        then add_warning (UnexpectedUnit t) 0.8 r2 else r2);
                                  r4 = (if \<not> isStatusConsistent kb t
                                        then add_warning (StatusMismatch t) 0.9 r3 else r3)
                              in Inr r4))))"

subsection \<open>validateTests\<close>

text \<open>
  The object \<open>validation\<close> that the loop updates and returns at the end, and the object
  returned from inside the loop when a rejection reason contains
  \<open>not found in original\<close>. The latter has no list of validated tests. The third outcome
  of a call is an exception: \<open>validateTests\<close> catches none.
\<close>

record validation =
  status :: string
  reason :: "string option"
  warnings :: "warning list"
  errors :: "string list"
  confidence :: real
  validated_tests :: "test list"
  rejected_tests :: "(test \<times> string) list"

record rejection =
  a_status :: string
  a_reason :: string
  a_confidence :: real
  a_rejected_tests :: "(test \<times> string) list"

datatype verdict = Completed validation | Aborted rejection | Thrown error

definition initial_validation :: validation where
  "initial_validation =
     \<lparr>status = ''ok'', reason = None, warnings = [], errors = [], confidence = 1,
      validated_tests = [], rejected_tests = []\<rparr>"

text \<open>The final update of the status, after the loop.\<close>

definition final_status :: "validation \<Rightarrow> validation" where
  "final_status v =
     (if confidence v < 0.3
      then v\<lparr>status := ''unprocessed'',
              reason := Some ''Overall confidence too low due to validation issues''\<rparr>
      else if confidence v < 0.6
      then v\<lparr>status := ''low_confidence'',
              reason := Some ''Multiple validation warnings detected''\<rparr>
      else if length (warnings v) > 0
      then v\<lparr>status := ''ok_with_warnings''\<rparr>
      else v)"

definition accept_test :: "test \<Rightarrow> single_result \<Rightarrow> validation \<Rightarrow> validation" where
  "accept_test t tv v =
     (let v1 = v\<lparr>validated_tests := validated_tests v @ [t]\<rparr>
      in if length (r_warnings tv) > 0
         then v1\<lparr>warnings := warnings v1 @ r_warnings tv,
                  confidence := confidence v1 * r_confidence tv\<rparr>
         else v1)"

definition reject_test :: "test \<Rightarrow> string \<Rightarrow> validation \<Rightarrow> validation" where
  "reject_test t why v =
     v\<lparr>rejected_tests := rejected_tests v @ [(t, why)], errors := errors v @ [why]\<rparr>"

definition hallucination_verdict :: "test \<Rightarrow> validation \<Rightarrow> rejection" where
  "hallucination_verdict t v =
     \<lparr>a_status = ''unprocessed'',
      a_reason = ''hallucinated tests not present in input: '' @ show_field (t_name t),
      a_confidence = 0,
      a_rejected_tests = rejected_tests v\<rparr>"

fun validate_loop :: "knowledge_base \<Rightarrow> jsval \<Rightarrow> test list \<Rightarrow> validation \<Rightarrow> verdict" where
  "validate_loop kb originalText [] v = Completed (final_status v)"
| "validate_loop kb originalText (t # ts) v =
     (case validateSingleTest kb t originalText of
        Inl e \<Rightarrow> Thrown e
      | Inr testValidation \<Rightarrow>
          if isValid testValidation
          then validate_loop kb originalText ts (accept_test t testValidation v)
          else
            (let why = (case rejectionReason testValidation of Some w \<Rightarrow> w | None \<Rightarrow> []);
                 v' = reject_test t why v
             in if str_includes why ''not found in original''
                then Aborted (hallucination_verdict t v')
                else validate_loop kb originalText ts v'))"

definition validateTests :: "knowledge_base \<Rightarrow> test list \<Rightarrow> jsval \<Rightarrow> verdict" where
  "validateTests kb extractedTests originalText =
     validate_loop kb originalText extractedTests initial_validation"

text \<open>What a caller reads from either object; after an exception it reads nothing.\<close>

fun verdict_status :: "verdict \<Rightarrow> string option" where
  "verdict_status (Completed v) = Some (status v)"
| "verdict_status (Aborted a) = Some (a_status a)"
| "verdict_status (Thrown e) = None"

fun verdict_reason :: "verdict \<Rightarrow> string option" where
  "verdict_reason (Completed v) = reason v"
| "verdict_reason (Aborted a) = Some (a_reason a)"
| "verdict_reason (Thrown e) = None"

fun verdict_validated :: "verdict \<Rightarrow> test list" where
  "verdict_validated (Completed v) = validated_tests v"
| "verdict_validated (Aborted a) = []"
| "verdict_validated (Thrown e) = []"

section \<open>Arithmetic on doubles\<close>

text \<open>
  The matcher and the normalizer compare computed scores with thresholds, so the rounding
  of the arithmetic decides the ties. The result of an arithmetic operation on two doubles
  is the exact result rounded to the nearest double, and a decimal literal denotes the
  double nearest to it. The rounding belongs to the language; it is the parameter \<open>rnd\<close>
  of the model. Integers of the sizes that occur here (lengths, counts, 0, 1, 2, 3) are
  doubles and are written as they are.
\<close>

type_synonym rounding = "real \<Rightarrow> real"

definition fadd :: "rounding \<Rightarrow> real \<Rightarrow> real \<Rightarrow> real" where
  "fadd rnd a b = rnd (a + b)"

definition fsub :: "rounding \<Rightarrow> real \<Rightarrow> real \<Rightarrow> real" where
  "fsub rnd a b = rnd (a - b)"

definition fmul :: "rounding \<Rightarrow> real \<Rightarrow> real \<Rightarrow> real" where
  "fmul rnd a b = rnd (a * b)"

definition fdiv :: "rounding \<Rightarrow> real \<Rightarrow> real \<Rightarrow> real" where
  "fdiv rnd a b = rnd (a / b)"

section \<open>SimilarityMatcher (services/similarityMatcher.js)\<close>

subsection \<open>String similarity\<close>

text \<open>
  \<open>levenshteinSimilarity\<close>: 1 when both strings are empty, else \<open>1 - distance / maxLength\<close>.
  It is given twice: in exact arithmetic, which is how its formula is stated, and in
  doubles, which is the value that the combined scores below are computed from.
\<close>

definition levenshteinSimilarity :: "string \<Rightarrow> string \<Rightarrow> real" where
  "levenshteinSimilarity str1 str2 =
     (let maxLength = max (length str1) (length str2)
      in if maxLength = 0 then 1
         else (let distance = levenshteinDistance str1 str2
               in 1 - real distance / real maxLength))"

definition levenshteinSimilarity_double :: "rounding \<Rightarrow> string \<Rightarrow> string \<Rightarrow> real" where
  "levenshteinSimilarity_double rnd str1 str2 =
     (let maxLength = max (length str1) (length str2)
      in if maxLength = 0 then 1
         else (let distance = levenshteinDistance str1 str2
               in fsub rnd 1 (fdiv rnd (real distance) (real maxLength))))"

text \<open>
  \<open>jaroSimilarity\<close>. The first loop pairs every character of \<open>str1\<close> with the first equal,
  still unpaired character of \<open>str2\<close> inside the window; \<open>matches1\<close> and \<open>matches2\<close> are
  the two arrays of flags. The second loop walks the paired characters of both strings in
  step and counts the places where they differ; its inner \<open>while\<close> skips the unpaired
  characters of \<open>str2\<close>, and it always finds a paired one, because both arrays hold the
  same number of flags.
\<close>

fun find_unmatched :: "char \<Rightarrow> string \<Rightarrow> bool list \<Rightarrow> nat list \<Rightarrow> nat option" where
  "find_unmatched c str2 matches2 [] = None"
| "find_unmatched c str2 matches2 (j # js) =
     (if matches2 ! j \<or> c \<noteq> str2 ! j then find_unmatched c str2 matches2 js else Some j)"

fun jaro_matches ::
  "string \<Rightarrow> nat \<Rightarrow> string \<Rightarrow> int \<Rightarrow> bool list \<Rightarrow> bool list \<Rightarrow> bool list \<times> bool list" where
  "jaro_matches [] i str2 matchWindow matches1 matches2 = (matches1, matches2)"
| "jaro_matches (c # cs) i str2 matchWindow matches1 matches2 =
     (let start = nat (max 0 (int i - matchWindow));
          end = nat (min (int i + matchWindow + 1) (int (length str2)))
      in case find_unmatched c str2 matches2 [start..<end] of
           None \<Rightarrow> jaro_matches cs (Suc i) str2 matchWindow (matches1 @ [False]) matches2
         | Some j \<Rightarrow>
             jaro_matches cs (Suc i) str2 matchWindow (matches1 @ [True]) (matches2[j := True]))"

fun jaro_transpositions :: "(char \<times> bool) list \<Rightarrow> (char \<times> bool) list \<Rightarrow> nat" where
  "jaro_transpositions [] ys = 0"
| "jaro_transpositions ((a, m) # xs) ys =
     (if \<not> m then jaro_transpositions xs ys
      else (case dropWhile (\<lambda>(b, mb). \<not> mb) ys of
              [] \<Rightarrow> 0
            | (b, mb) # ys' \<Rightarrow> (if a \<noteq> b then 1 else 0) + jaro_transpositions xs ys'))"

definition jaroSimilarity :: "rounding \<Rightarrow> string \<Rightarrow> string \<Rightarrow> real" where
  "jaroSimilarity rnd str1 str2 =
     (if str1 = str2 then 1
      else
        (let len1 = length str1; len2 = length str2
         in if len1 = 0 \<or> len2 = 0 then 0
            else
              (let matchWindow = int (max len1 len2 div 2) - 1;
                   (matches1, matches2) =
                      jaro_matches str1 0 str2 matchWindow [] (replicate len2 False);
                   matches = length (filter id matches1)
               in if matches = 0 then 0
                  else
                    (let transpositions =
                           jaro_transpositions (zip str1 matches1) (zip str2 matches2)
                     in fdiv rnd
                          (fadd rnd
                             (fadd rnd (fdiv rnd (real matches) (real len1))
                                       (fdiv rnd (real matches) (real len2)))
                             (fdiv rnd
                                (fsub rnd (real matches) (fdiv rnd (real transpositions) 2))
                                (real matches)))
                          3))))"

text \<open>
  \<open>substringsimilarity\<close>: the shorter string inside the longer one, or else the longest
  slice of the shorter string that occurs in the longer one, over the length of the longer.
\<close>

definition slices :: "string \<Rightarrow> string list" where
  "slices s = concat (map (\<lambda>i. map (\<lambda>j. take (j - i) (drop i s)) [i + 1..<length s + 1])
                            [0..<length s])"

definition substringsimilarity :: "rounding \<Rightarrow> string \<Rightarrow> string \<Rightarrow> real" where
  "substringsimilarity rnd str1 str2 =
     (let longer = (if length str1 > length str2 then str1 else str2);
          shorter = (if length str1 > length str2 then str2 else str1)
      in if length longer = 0 then 1
         else if str_includes longer shorter
         then fdiv rnd (real (length shorter)) (real (length longer))
         else
           (let maxLength =
                  fold (\<lambda>substring m.
                          if str_includes longer substring \<and> length substring > m
                          then length substring else m)
                       (slices shorter) 0
            in fdiv rnd (real maxLength) (real (length longer))))"

text \<open>\<open>calculateNGramSimilarity\<close> with its default \<open>n = 2\<close>: the Jaccard index of the two sets.\<close>

definition getNGrams :: "string \<Rightarrow> nat \<Rightarrow> string list" where
  "getNGrams str n = map (\<lambda>i. take n (drop i str)) [0..<length str + 1 - n]"

definition calculateNGramSimilarity :: "rounding \<Rightarrow> string \<Rightarrow> string \<Rightarrow> real" where
  "calculateNGramSimilarity rnd str1 str2 =
     (let ngrams1 = set (getNGrams (toLowerCase str1) 2);
          ngrams2 = set (getNGrams (toLowerCase str2) 2);
          intersection = ngrams1 \<inter> ngrams2;
          union = ngrams1 \<union> ngrams2
      in if card union = 0 then 0
         else fdiv rnd (real (card intersection)) (real (card union)))"

text \<open>\<open>calculateStringSimilarity\<close>, the combination used when the libraries are missing.\<close>

definition calculateStringSimilarity :: "rounding \<Rightarrow> string \<Rightarrow> string \<Rightarrow> real" where
  "calculateStringSimilarity rnd str1 str2 =
     (if str1 = [] \<or> str2 = [] then 0
      else
        (let levenshtein = levenshteinSimilarity_double rnd str1 str2;
             jaro = jaroSimilarity rnd str1 str2;
             substring = substringsimilarity rnd str1 str2
         in fadd rnd
              (fadd rnd (fmul rnd levenshtein (rnd 0.5)) (fmul rnd jaro (rnd 0.3)))
              (fmul rnd substring (rnd 0.2))))"

subsection \<open>The libraries\<close>

text \<open>
  The module loads \<open>natural\<close> and \<open>fuse.js\<close> in one \<open>try\<close> block and takes the encoders
  and the distance of \<open>natural\<close> after both: either the searches of Fuse, \<open>metaphone\<close>,
  \<open>soundex\<close> and \<open>levenshtein\<close> are all there, or none of them is. What the libraries
  compute is not part of this repository: it is a parameter of the model. A Fuse search
  returns its hits, best first, each with a score in which 0 is a perfect match.
\<close>

record name_item =
  item_name :: string
  item_key :: string
  item_type :: string

record nlp_libs =
  fuse_names :: "name_item list \<Rightarrow> string \<Rightarrow> (name_item \<times> real) list"
  fuse_units :: "string list \<Rightarrow> string \<Rightarrow> (string \<times> real) list"
  fuse_statuses :: "string list \<Rightarrow> string \<Rightarrow> (string \<times> real) list"
  metaphone :: "string \<Rightarrow> string"
  soundex :: "string \<Rightarrow> string"
  natural_levenshtein :: "string \<Rightarrow> string \<Rightarrow> real"

text \<open>\<open>calculateAdvancedStringSimilarity\<close>\<close>

definition calculateAdvancedStringSimilarity ::
  "rounding \<Rightarrow> nlp_libs option \<Rightarrow> string \<Rightarrow> string \<Rightarrow> real" where
  "calculateAdvancedStringSimilarity rnd libs str1 str2 =
     (if str1 = [] \<or> str2 = [] then 0
      else
        (case libs of
           Some l \<Rightarrow>
             (let distance = natural_levenshtein l str1 str2;
                  maxLength = max (length str1) (length str2);
                  levenshteinSim = fsub rnd 1 (fdiv rnd distance (real maxLength));
                  jaroSim = jaroSimilarity rnd str1 str2;
                  substringeSim = substringsimilarity rnd str1 str2;
                  nGramSim = calculateNGramSimilarity rnd str1 str2
              in fadd rnd
                   (fadd rnd
                      (fadd rnd (fmul rnd levenshteinSim (rnd 0.3)) (fmul rnd jaroSim (rnd 0.3)))
                      (fmul rnd substringeSim (rnd 0.2)))
                   (fmul rnd nGramSim (rnd 0.2)))
         | None \<Rightarrow> calculateStringSimilarity rnd str1 str2))"

subsection \<open>Lookup tables\<close>

definition baseStatuses :: "string list" where
  "baseStatuses = [''high'', ''low'', ''normal'', ''elevated'', ''decreased'', ''abnormal'']"

definition baseUnits :: "string list" where
  "baseUnits = [''g/dL'', ''/uL'', ''mg/dL'', ''mEq/L'', ''U/L'', ''%'', ''mIU/L'', ''ng/dL'',
                ''pg/mL'', ''mm/hr'', ''mg/L'']"

text \<open>
  \<open>buildLookupTables\<close>: \<open>testAliases\<close> maps every lower-cased alias to the key of its entry
  (a later entry replaces an earlier one); \<open>testNamesArray\<close> lists, entry by entry, the
  lower-cased key, the lower-cased display name when there is one, and the lower-cased
  aliases; \<open>units\<close> is the set of the entries' units followed by the base units, in the
  order of insertion.
\<close>

definition aliases_list :: "kb_entry \<Rightarrow> string list" where
  "aliases_list data = (case e_aliases data of None \<Rightarrow> [] | Some as \<Rightarrow> as)"

definition testAliases :: "knowledge_base \<Rightarrow> (string \<rightharpoonup> string)" where
  "testAliases kb =
     fold (\<lambda>(key, data) m. fold (\<lambda>alias m'. m'(toLowerCase alias \<mapsto> key)) (aliases_list data) m)
       kb Map.empty"

definition entry_items :: "string \<Rightarrow> kb_entry \<Rightarrow> name_item list" where
  "entry_items key data =
     [\<lparr>item_name = toLowerCase key, item_key = key, item_type = ''primary''\<rparr>]
     @ (case e_name data of
          None \<Rightarrow> []
        | Some n \<Rightarrow>
            if n = [] then []
            else [\<lparr>item_name = toLowerCase n, item_key = key, item_type = ''display''\<rparr>])
     @ map (\<lambda>alias. \<lparr>item_name = toLowerCase alias, item_key = key, item_type = ''alias''\<rparr>)
         (aliases_list data)"

definition testNamesArray :: "knowledge_base \<Rightarrow> name_item list" where
  "testNamesArray kb = concat (map (\<lambda>(key, data). entry_items key data) kb)"

definition set_add :: "'a \<Rightarrow> 'a list \<Rightarrow> 'a list" where
  "set_add x xs = (if List.member xs x then xs else xs @ [x])"

definition units :: "knowledge_base \<Rightarrow> string list" where
  "units kb =
     fold set_add baseUnits
       (fold (\<lambda>(key, data) us.
                case e_unit data of
                  None \<Rightarrow> us
                | Some u \<Rightarrow> if u = [] then us else set_add u us)
          kb [])"

subsection \<open>Matching one field\<close>

text \<open>
  The result of a match. \<open>matched\<close> is missing when the unit of a catalog entry is taken
  and the entry has none; \<open>via\<close> (the property \<open>method\<close>) is missing in the two objects that
  \<open>findBestTestMatch\<close> builds for the unit; \<open>tier\<close> is the property \<open>confidence\<close>.
\<close>

record match_result =
  matched :: "string option"
  similarity :: real
  tier :: string
  via :: "string option"

definition getConfidenceLevel :: "rounding \<Rightarrow> real \<Rightarrow> string" where
  "getConfidenceLevel rnd sim =
     (if sim \<ge> rnd 0.95 then ''exact''
      else if sim \<ge> rnd 0.8 then ''high''
      else if sim \<ge> rnd 0.6 then ''medium''
      else ''low'')"

definition scored :: "rounding \<Rightarrow> string \<Rightarrow> real \<Rightarrow> string \<Rightarrow> match_result" where
  "scored rnd key sim how =
     \<lparr>matched = Some key, similarity = sim, tier = getConfidenceLevel rnd sim, via = Some how\<rparr>"

definition exact :: "string \<Rightarrow> string \<Rightarrow> match_result" where
  "exact key how = \<lparr>matched = Some key, similarity = 1, tier = ''exact'', via = Some how\<rparr>"

text \<open>
  The loop shared by \<open>findPhoneticMatch\<close> and \<open>findAdvancedStringMatch\<close>: the first
  candidate with the strictly greatest score above 0, or nothing. A candidate is a pair
  of a name and a key.
\<close>

fun best_candidate ::
  "(string \<Rightarrow> real) \<Rightarrow> (string \<times> string) list \<Rightarrow> (string \<times> string) option \<Rightarrow> real
     \<Rightarrow> (string \<times> string) option \<times> real" where
  "best_candidate score [] bestMatch bestSimilarity = (bestMatch, bestSimilarity)"
| "best_candidate score (candidate # candidates) bestMatch bestSimilarity =
     (let sim = score (fst candidate)
      in if sim > bestSimilarity then best_candidate score candidates (Some candidate) sim
         else best_candidate score candidates bestMatch bestSimilarity)"

definition best_of ::
  "(string \<Rightarrow> real) \<Rightarrow> (string \<times> string) list \<Rightarrow> (string \<times> real) option" where
  "best_of score candidates =
     (case best_candidate score candidates None 0 of
        (None, sim) \<Rightarrow> None
      | (Some candidate, sim) \<Rightarrow> Some (snd candidate, sim))"

definition findAdvancedStringMatch ::
  "rounding \<Rightarrow> nlp_libs option \<Rightarrow> string \<Rightarrow> (string \<times> string) list
     \<Rightarrow> (string \<times> real) option" where
  "findAdvancedStringMatch rnd libs input candidates =
     best_of (calculateAdvancedStringSimilarity rnd libs input) candidates"

definition findPhoneticMatch ::
  "rounding \<Rightarrow> nlp_libs option \<Rightarrow> string \<Rightarrow> (string \<times> string) list
     \<Rightarrow> (string \<times> real) option" where
  "findPhoneticMatch rnd libs input candidates =
     (case libs of
        None \<Rightarrow> None
      | Some l \<Rightarrow>
          best_of
            (\<lambda>name.
               (let p0 = 0;
                    p1 = (if metaphone l input = metaphone l name
                          then fadd rnd p0 (rnd 0.6) else p0);
                    phoneticSimilarity =
                         (if soundex l input = soundex l name
                          then fadd rnd p1 (rnd 0.4) else p1);
                    stringSimilarity = calculateAdvancedStringSimilarity rnd libs input name
                in fadd rnd (fmul rnd phoneticSimilarity (rnd 0.7))
                            (fmul rnd stringSimilarity (rnd 0.3))))
            candidates)"

definition name_candidates :: "knowledge_base \<Rightarrow> (string \<times> string) list" where
  "name_candidates kb = map (\<lambda>i. (item_name i, item_key i)) (testNamesArray kb)"

definition same_candidates :: "string list \<Rightarrow> (string \<times> string) list" where
  "same_candidates xs = map (\<lambda>x. (x, x)) xs"

text \<open>
  \<open>findBestTestNameMatch\<close>. After the two exact steps come the Fuse search, the phonetic
  match, the combined string similarity and the (empty) semantic match, each tried only
  when the one before it did not return. The thresholds are those of the constructor:
  0.5 for a name and for a status, 0.6 for a unit, 0.8 for a phonetic match.
\<close>

definition name_fuzzy_steps ::
  "rounding \<Rightarrow> nlp_libs option \<Rightarrow> knowledge_base \<Rightarrow> string \<Rightarrow> match_result option" where
  "name_fuzzy_steps rnd libs kb cleanInput =
     (let fuse =
            (case libs of
               None \<Rightarrow> None
             | Some l \<Rightarrow>
                 (case fuse_names l (testNamesArray kb) cleanInput of
                    [] \<Rightarrow> None
                  | (item, score) # rest \<Rightarrow>
                      (let sim = fsub rnd 1 score
                       in if sim \<ge> rnd 0.5
                          then Some (scored rnd (item_key item) sim ''fuse_fuzzy'')
                          else None)))
      in case fuse of
           Some r \<Rightarrow> Some r
         | None \<Rightarrow>
             (let phonetic =
                    (case findPhoneticMatch rnd libs cleanInput (name_candidates kb) of
                       None \<Rightarrow> None
                     | Some (key, sim) \<Rightarrow>
                         if sim \<ge> rnd 0.8 then Some (scored rnd key sim ''phonetic'') else None)
              in case phonetic of
                   Some r \<Rightarrow> Some r
                 | None \<Rightarrow>
                     (case findAdvancedStringMatch rnd libs cleanInput (name_candidates kb) of
                        None \<Rightarrow> None
                      | Some (key, sim) \<Rightarrow>
                          if sim \<ge> rnd 0.5 then Some (scored rnd key sim ''advanced_string'')
                          else None)))"

definition findBestTestNameMatch ::
  "rounding \<Rightarrow> nlp_libs option \<Rightarrow> knowledge_base \<Rightarrow> jsval \<Rightarrow> match_result option" where
  "findBestTestNameMatch rnd libs kb inputName =
     (case inputName of
        JString s \<Rightarrow>
          if s = [] then None
          else
            (let cleanInput = toLowerCase (trim s)
             in case testAliases kb cleanInput of
                  Some key \<Rightarrow> Some (exact key ''exact_match'')
                | None \<Rightarrow>
                    (case kb_get kb cleanInput of
                       Some data \<Rightarrow> Some (exact cleanInput ''direct_lookup'')
                     | None \<Rightarrow> name_fuzzy_steps rnd libs kb cleanInput))
      | _ \<Rightarrow> None)"

text \<open>\<open>findBestUnitMatch\<close>: the input is trimmed and not lower-cased for the exact step.\<close>

definition findBestUnitMatch ::
  "rounding \<Rightarrow> nlp_libs option \<Rightarrow> knowledge_base \<Rightarrow> jsval \<Rightarrow> match_result option" where
  "findBestUnitMatch rnd libs kb inputUnit =
     (case inputUnit of
        JString s \<Rightarrow>
          if s = [] then None
          else
            (let cleanInput = trim s
             in if List.member (units kb) cleanInput then Some (exact cleanInput ''exact_match'')
                else
                  (let fuse =
                         (case libs of
                            None \<Rightarrow> None
                          | Some l \<Rightarrow>
                              (case fuse_units l (units kb) cleanInput of
                                 [] \<Rightarrow> None
                               | (item, score) # rest \<Rightarrow>
                                   (let sim = fsub rnd 1 score
                                    in if sim \<ge> rnd 0.6
                                       then Some (scored rnd item sim ''fuse_fuzzy'')
                                       else None)))
                   in case fuse of
                        Some r \<Rightarrow> Some r
                      | None \<Rightarrow>
                          (case findAdvancedStringMatch rnd libs (toLowerCase cleanInput)
                                  (same_candidates (units kb)) of
                             None \<Rightarrow> None
                           | Some (key, sim) \<Rightarrow>
                               if sim \<ge> rnd 0.6 then Some (scored rnd key sim ''advanced_string'')
                               else None)))
      | _ \<Rightarrow> None)"

definition findBestStatusMatch ::
  "rounding \<Rightarrow> nlp_libs option \<Rightarrow> jsval \<Rightarrow> match_result option" where
  "findBestStatusMatch rnd libs inputStatus =
     (case inputStatus of
        JString s \<Rightarrow>
          if s = [] then None
          else
            (let cleanInput = toLowerCase (trim s)
             in if List.member baseStatuses cleanInput
                then Some (exact cleanInput ''exact_match'')
                else
                  (let fuse =
                         (case libs of
                            None \<Rightarrow> None
                          | Some l \<Rightarrow>
                              (case fuse_statuses l baseStatuses cleanInput of
                                 [] \<Rightarrow> None
                               | (item, score) # rest \<Rightarrow>
                                   (let sim = fsub rnd 1 score
                                    in if sim \<ge> rnd 0.5
                                       then Some (scored rnd item sim ''fuse_fuzzy'')
                                       else None)))
                   in case fuse of
                        Some r \<Rightarrow> Some r
                      | None \<Rightarrow>
                          (let phonetic =
                                 (case findPhoneticMatch rnd libs cleanInput
                                         (same_candidates baseStatuses) of
                                    None \<Rightarrow> None
                                  | Some (key, sim) \<Rightarrow>
                                      if sim \<ge> rnd 0.8
                                      then Some (scored rnd key sim ''phonetic'')
                                      else None)
                           in case phonetic of
                                Some r \<Rightarrow> Some r
                              | None \<Rightarrow>
                                  (case findAdvancedStringMatch rnd libs cleanInput
                                          (same_candidates baseStatuses) of
                                     None \<Rightarrow> None
                                   | Some (key, sim) \<Rightarrow>
                                       if sim \<ge> rnd 0.5
                                       then Some (scored rnd key sim ''advanced_string'')
                                       else None))))
      | _ \<Rightarrow> None)"

subsection \<open>findBestTestMatch\<close>

text \<open>Whether a value counts as true in a condition.\<close>

fun truthy :: "jsval \<Rightarrow> bool" where
  "truthy JUndefined = False"
| "truthy JNull = False"
| "truthy (JString s) = (s \<noteq> [])"
| "truthy (JNumber NaN) = False"
| "truthy (JNumber (Fin x)) = (x \<noteq> 0)"
| "truthy (JNumber n) = True"
| "truthy (JBool b) = b"
| "truthy JObject = True"

text \<open>A property name that may be \<open>undefined\<close>: \<open>obj[undefined]\<close> reads \<open>obj["undefined"]\<close>.\<close>

fun prop_name :: "string option \<Rightarrow> string" where
  "prop_name None = ''undefined''"
| "prop_name (Some k) = k"

text \<open>
  \<open>calculateOverallConfidence\<close>: both sums start at 0 and grow by one term for every match
  that is there.
\<close>

definition calculateOverallConfidence ::
  "rounding \<Rightarrow> match_result option \<Rightarrow> match_result option \<Rightarrow> match_result option \<Rightarrow> real" where
  "calculateOverallConfidence rnd nameMatch unitMatch statusMatch =
     (let part = (\<lambda>m weight (weightedScore, totalWeight).
                    case m of
                      None \<Rightarrow> (weightedScore, totalWeight)
                    | Some r \<Rightarrow>
                        (fadd rnd weightedScore (fmul rnd (similarity r) weight),
                         fadd rnd totalWeight weight));
          (weightedScore, totalWeight) =
             part statusMatch (rnd 0.15) (part unitMatch (rnd 0.25) (part nameMatch (rnd 0.6) (0, 0)))
      in if totalWeight > 0 then fdiv rnd weightedScore totalWeight else 0)"

record test_match =
  testKey :: "string option"
  testData :: kb_entry
  name_match :: match_result
  unit_match :: match_result
  status_match :: "match_result option"
  match_confidence :: real

definition findBestTestMatch ::
  "rounding \<Rightarrow> nlp_libs option \<Rightarrow> knowledge_base \<Rightarrow> jsval \<Rightarrow> jsval \<Rightarrow> jsval
     \<Rightarrow> test_match option" where
  "findBestTestMatch rnd libs kb testName unitToken statusToken =
     (case findBestTestNameMatch rnd libs kb testName of
        None \<Rightarrow> None
      | Some nameMatch \<Rightarrow>
          (case kb_get kb (prop_name (matched nameMatch)) of
             None \<Rightarrow> None
           | Some data \<Rightarrow>
               (let unitMatch =
                      (if truthy unitToken
                       then
                         (case findBestUnitMatch rnd libs kb unitToken of
                            None \<Rightarrow>
                              \<lparr>matched = e_unit data, similarity = rnd 0.8, tier = ''assumed'',
                               via = None\<rparr>
                          | Some m \<Rightarrow>
                              if tier m = ''low''
                              then \<lparr>matched = e_unit data, similarity = rnd 0.8,
                                    tier = ''assumed'', via = None\<rparr>
                              else m)
                       else \<lparr>matched = e_unit data, similarity = 1, tier = ''default'',
                             via = None\<rparr>);
                    statusMatch =
                      (if truthy statusToken then findBestStatusMatch rnd libs statusToken
                       else None);
                    overallConfidence =
                      calculateOverallConfidence rnd (Some nameMatch) (Some unitMatch) statusMatch
                in Some \<lparr>testKey = matched nameMatch, testData = data, name_match = nameMatch,
                         unit_match = unitMatch, status_match = statusMatch,
                         match_confidence = overallConfidence\<rparr>)))"

section \<open>MedicalTestNormalizer (services/testNormalizer.js)\<close>

text \<open>
  An extracted test as the normalizer receives it, and the record it produces. The
  conversion of a string to a number by \<open>parseFloat\<close> belongs to the language; it is
  a parameter of the model. Applied to a number \<open>parseFloat\<close> returns the number, and
  applied to \<open>undefined\<close>, \<open>null\<close>, a boolean or a plain object it returns \<open>NaN\<close>.
\<close>

record extracted_test =
  x_rawTestName :: jsval
  x_value :: jsval
  x_unit :: jsval
  x_status :: strfield
  x_confidence :: "real option"

record normalized_test =
  n_name :: "string option"
  n_value :: jsnum
  n_unit :: "string option"
  n_status :: string
  n_ref_range :: "real \<times> real"

definition parseFloat :: "(string \<Rightarrow> jsnum) \<Rightarrow> jsval \<Rightarrow> jsnum" where
  "parseFloat parse v = (case v of JNumber n \<Rightarrow> n | JString s \<Rightarrow> parse s | _ \<Rightarrow> NaN)"

definition testNameMappings :: "(string \<times> string) list" where
  "testNameMappings =
     [(''hemoglobin'', ''hemoglobin''),
      (''hgb'', ''hemoglobin''),
      (''hb'', ''hemoglobin''),
      (''white blood cells'', ''wbc''),
      (''white blood cell count'', ''wbc''),
      (''wbc count'', ''wbc''),
      (''red blood cells'', ''rbc''),
      (''red blood cell count'', ''rbc''),
      (''rbc count'', ''rbc''),
      (''platelet count'', ''platelet count''),
      (''platelets'', ''platelet count''),
      (''plt'', ''platelet count''),
      (''blood glucose'', ''glucose''),
      (''fasting glucose'', ''glucose''),
      (''serum creatinine'', ''creatinine''),
      (''creat'', ''creatinine''),
      (''serum sodium'', ''sodium''),
      (''na'', ''sodium''),
      (''serum potassium'', ''potassium''),
      (''k'', ''potassium'')]"

text \<open>The loop of the legacy partial match over the keys of the catalog.\<close>

fun legacy_match :: "string \<Rightarrow> string list \<Rightarrow> string option" where
  "legacy_match cleanName [] = None"
| "legacy_match cleanName (knownTest # knownTests) =
     (if (str_includes cleanName knownTest \<or> str_includes knownTest cleanName)
         \<and> \<bar>int (length cleanName) - int (length knownTest)\<bar> \<le> 2
      then Some knownTest
      else legacy_match cleanName knownTests)"

text \<open>
  \<open>normalizeTestName\<close> of the normalizer. The fallback is reached only when the matcher
  found nothing or a match of tier \<open>low\<close>; the matcher has then looked the same
  lower-cased name up in the catalog and found nothing, so the name is none that
  \<open>Object.prototype\<close> defines (lemma \<open>fallback_name_plain\<close>), and \<open>testNameMappings\<close> is read
  as the list of its own entries.
\<close>

definition normalizer_normalizeTestName ::
  "rounding \<Rightarrow> nlp_libs option \<Rightarrow> knowledge_base \<Rightarrow> jsval \<Rightarrow> string option" where
  "normalizer_normalizeTestName rnd libs kb rawName =
     (case rawName of
        JString s \<Rightarrow>
          if s = [] then None
          else
            (let similar =
                   (case findBestTestNameMatch rnd libs kb rawName of
                      None \<Rightarrow> None
                    | Some testMatch \<Rightarrow> if tier testMatch \<noteq> ''low'' then Some testMatch else None)
             in case similar of
                  Some testMatch \<Rightarrow> matched testMatch
                | None \<Rightarrow>
                    (let cleanName = toLowerCase (trim s)
                     in case map_of testNameMappings cleanName of
                          Some mapped \<Rightarrow> Some mapped
                        | None \<Rightarrow>
                            (case kb_get kb cleanName of
                               Some data \<Rightarrow> Some cleanName
                             | None \<Rightarrow> legacy_match cleanName (map fst kb))))
      | _ \<Rightarrow> None)"

definition getReferenceRange :: "kb_entry \<Rightarrow> real \<times> real" where
  "getReferenceRange knownTestData =
     (case e_ref_range knownTestData of Some r \<Rightarrow> r | None \<Rightarrow> (0, 100))"

text \<open>\<open>providedStatus || 'unknown'\<close>\<close>

definition status_or_unknown :: "strfield \<Rightarrow> string" where
  "status_or_unknown providedStatus =
     (case providedStatus of SString s \<Rightarrow> if s = [] then ''unknown'' else s | _ \<Rightarrow> ''unknown'')"

definition determineStatus ::
  "(string \<Rightarrow> jsnum) \<Rightarrow> jsval \<Rightarrow> real \<times> real \<Rightarrow> strfield \<Rightarrow> string" where
  "determineStatus parse val refRange providedStatus =
     (let numericValue = parseFloat parse val
      in if numericValue = NaN then status_or_unknown providedStatus
         else
           (let calculatedStatus =
                  (if num_lt numericValue (fst refRange) then ''low''
                   else if num_gt numericValue (snd refRange) then ''high''
                   else ''normal'')
            in calculatedStatus))"

definition clamp01 :: "real \<Rightarrow> real" where
  "clamp01 x = max 0 (min 1 x)"

definition calculateNormalizationConfidence ::
  "rounding \<Rightarrow> (string \<Rightarrow> jsnum) \<Rightarrow> string \<Rightarrow> string \<Rightarrow> jsval \<Rightarrow> strfield
     \<Rightarrow> real option \<Rightarrow> real" where
  "calculateNormalizationConfidence rnd parse rawName normalizedName val st inputConfidence =
     (let c0 = (case inputConfidence of
                  None \<Rightarrow> rnd 0.8
                | Some c \<Rightarrow> if c = 0 then rnd 0.8 else c);
          c1 = (if toLowerCase rawName = toLowerCase normalizedName
                then fadd rnd c0 (rnd 0.1) else c0);
          c2 = (if parseFloat parse val \<noteq> NaN then fadd rnd c1 (rnd 0.05) else c1);
          c3 = (if List.member [SString ''high'', SString ''low'', SString ''normal''] st
                then fadd rnd c2 (rnd 0.05) else c2)
      in clamp01 c3)"

definition normalizeIndividualTest ::
  "rounding \<Rightarrow> (string \<Rightarrow> jsnum) \<Rightarrow> nlp_libs option \<Rightarrow> knowledge_base \<Rightarrow> extracted_test
     \<Rightarrow> (normalized_test \<times> real) option" where
  "normalizeIndividualTest rnd parse libs kb extractedTest =
     (case normalizer_normalizeTestName rnd libs kb (x_rawTestName extractedTest) of
        None \<Rightarrow> None
      | Some normalizedName \<Rightarrow>
          if normalizedName = [] then None
          else
          (case kb_get kb normalizedName of
             None \<Rightarrow> None
           | Some knownTestData \<Rightarrow>
               (let refRange = getReferenceRange knownTestData;
                    finalStatus =
                      determineStatus parse (x_value extractedTest) refRange (x_status extractedTest);
                    rawName = (case x_rawTestName extractedTest of JString s \<Rightarrow> s | _ \<Rightarrow> []);
                    normalizationConfidence =
                      calculateNormalizationConfidence rnd parse rawName normalizedName
                        (x_value extractedTest) (x_status extractedTest) (x_confidence extractedTest)
                in Some (\<lparr>n_name = e_name knownTestData,
                           n_value = parseFloat parse (x_value extractedTest),
                           n_unit = e_unit knownTestData,
                           n_status = finalStatus,
                           n_ref_range = refRange\<rparr>,
                         normalizationConfidence))))"

section \<open>Reference notions\<close>

subsection \<open>Edit distance\<close>

text \<open>
  The Levenshtein distance of two sequences, by its defining recursion: the least number of
  insertions, deletions and substitutions of single elements that turn one into the other.
\<close>

fun levenshtein :: "'a list \<Rightarrow> 'a list \<Rightarrow> nat" where
  "levenshtein [] ys = length ys"
| "levenshtein (x # xs) [] = Suc (length xs)"
| "levenshtein (x # xs) (y # ys) =
     min (min (levenshtein xs (y # ys) + 1) (levenshtein (x # xs) ys + 1))
         (levenshtein xs ys + (if x = y then 0 else 1))"

text \<open>The entry of the matrix for the prefixes \<open>p\<close> of \<open>str1\<close> and \<open>q\<close> of \<open>str2\<close>.\<close>

definition prefix_distance :: "'a list \<Rightarrow> 'a list \<Rightarrow> nat" where
  "prefix_distance p q = levenshtein (rev p) (rev q)"

text \<open>
  The edit-distance similarity of the specification: 1 for two empty strings, else 1 minus
  the Levenshtein distance over the larger length.
\<close>

definition edit_similarity :: "string \<Rightarrow> string \<Rightarrow> real" where
  "edit_similarity a b =
     (if a = [] \<and> b = [] then 1
      else 1 - real (levenshtein a b) / real (max (length a) (length b)))"

subsection \<open>Records in the loop of the guardrail\<close>

text \<open>
  What holds of the object \<open>validation\<close> whenever the loop of \<open>validateTests\<close> is at the top
  of its body: the status is still the initial one, and the confidence has only moved
  together with a warning.
\<close>

definition loop_inv :: "validation \<Rightarrow> bool" where
  "loop_inv v = (status v = ''ok'' \<and> (confidence v = 1 \<or> warnings v \<noteq> []))"

text \<open>
  A record fails the traceability check when it reaches the check, that is, its structure
  is complete, and the check says that the original text does not mention it.
\<close>

definition fails_traceability :: "knowledge_base \<Rightarrow> jsval \<Rightarrow> test \<Rightarrow> bool" where
  "fails_traceability kb originalText t =
     (isValidTestStructure t
      \<and> isTestMentionedInOriginal kb (the_str (t_name t)) originalText = Inr False)"

text \<open>A record passes both checks.\<close>

definition passes_checks :: "knowledge_base \<Rightarrow> jsval \<Rightarrow> test \<Rightarrow> bool" where
  "passes_checks kb originalText t =
     (isValidTestStructure t
      \<and> isTestMentionedInOriginal kb (the_str (t_name t)) originalText = Inr True)"

text \<open>The validation of a record throws an exception.\<close>

definition raises :: "knowledge_base \<Rightarrow> jsval \<Rightarrow> test \<Rightarrow> bool" where
  "raises kb originalText t =
     (case validateSingleTest kb t originalText of Inl e \<Rightarrow> True | Inr r \<Rightarrow> False)"

text \<open>
  A record whose structure is incomplete and whose rejection reason nevertheless contains
  the words by which \<open>validateTests\<close> recognises a hallucination.
\<close>

definition marked_malformed :: "test \<Rightarrow> bool" where
  "marked_malformed t =
     (\<not> isValidTestStructure t \<and> str_includes (structure_reason t) ''not found in original'')"

text \<open>The original text is missing: it is not a string, or it is the empty string.\<close>

definition text_missing :: "jsval \<Rightarrow> bool" where
  "text_missing originalText = (case originalText of JString txt \<Rightarrow> txt = [] | _ \<Rightarrow> True)"

text \<open>
  What \<open>validateSingleTest\<close> gives a record that passes both checks: one factor and one
  warning for each check that fails.
\<close>

definition penalty :: "knowledge_base \<Rightarrow> test \<Rightarrow> real" where
  "penalty kb t =
     (if normalizeTestName kb (the_str (t_name t)) = None then 0.7 else 1)
     * (if isValueRealistic kb t then 1 else 0.6)
     * (if isUnitValid kb t = Inr False then 0.8 else 1)
     * (if isStatusConsistent kb t then 1 else 0.9)"

definition warnings_of :: "knowledge_base \<Rightarrow> test \<Rightarrow> warning list" where
  "warnings_of kb t =
     (if normalizeTestName kb (the_str (t_name t)) = None then [UnknownTest t] else [])
     @ (if isValueRealistic kb t then [] else [UnrealisticValue t])
     @ (if isUnitValid kb t = Inr False then [UnexpectedUnit t] else [])
     @ (if isStatusConsistent kb t then [] else [StatusMismatch t])"










text \<open>
  The inputs of the amended claims. In a catalog with plain keys no key is \<open>null\<close> or a
  name that \<open>Object.prototype\<close> defines. In a regular catalog, moreover, every entry
  carries its reference range also as \<open>normalRange\<close>, the property that the guardrail
  reads. A plain name is, in lower case, no name that \<open>Object.prototype\<close> defines.
\<close>

definition plain_keys :: "knowledge_base \<Rightarrow> bool" where
  "plain_keys kb =
     list_all (\<lambda>(key, d). key \<noteq> ''null'' \<and> \<not> List.member object_prototype key) kb"


definition plain_name :: "string \<Rightarrow> bool" where
  "plain_name testName = (\<not> List.member object_prototype (toLowerCase testName))"


text \<open>The two kinds of record at which the loop of \<open>validateTests\<close> returns early.\<close>

definition abort_trigger :: "knowledge_base \<Rightarrow> jsval \<Rightarrow> test \<Rightarrow> bool" where
  "abort_trigger kb originalText t = (fails_traceability kb originalText t \<or> marked_malformed t)"

subsection \<open>Traceability\<close>

text \<open>
  The catalog entry whose aliases count for a name: the entry stored under the lower-cased
  name or, when there is none, the entry stored under the key that the name resolves to.
\<close>

definition entry_for_name :: "knowledge_base \<Rightarrow> string \<Rightarrow> kb_entry option" where
  "entry_for_name kb testName =
     (case map_of kb (toLowerCase testName) of
        Some d \<Rightarrow> Some d
      | None \<Rightarrow>
          (case normalizeTestName kb testName of
             None \<Rightarrow> None
           | Some key \<Rightarrow> map_of kb key))"

definition aliases_of :: "knowledge_base \<Rightarrow> string \<Rightarrow> string list" where
  "aliases_of kb testName =
     (case entry_for_name kb testName of None \<Rightarrow> [] | Some d \<Rightarrow> aliases_list d)"

text \<open>
  Traceability as C3 words it: the name, or one of the aliases, occurs in the original
  text, or a piece of the text between white space is similar to the name beyond 0.7.
  Upper and lower case are not told apart.
\<close>

definition claimed_traceable :: "knowledge_base \<Rightarrow> string \<Rightarrow> string \<Rightarrow> bool" where
  "claimed_traceable kb testName originalText =
     (sublist (toLowerCase testName) (toLowerCase originalText)
      \<or> list_ex (\<lambda>alias. sublist (toLowerCase alias) (toLowerCase originalText))
           (aliases_of kb testName)
      \<or> list_ex (\<lambda>word. edit_similarity (toLowerCase testName) word > 0.7)
           (split_ws (toLowerCase originalText)))"

text \<open>
  Traceability as the amended C3 words it. The text is read in lower case with every
  character other than \<open>a\<close>-\<open>z\<close>, \<open>0\<close>-\<open>9\<close> and white space replaced by a space. The name is
  traceable when the lower-cased name occurs in that text, or a lower-cased alias does, or
  one of the variations that the guardrail lists for the lower-cased name does, or a piece
  of that text of three or more characters is similar to the lower-cased name beyond 0.7.
\<close>

definition listed_variations :: "string \<Rightarrow> string list" where
  "listed_variations testName =
     (case map_of variations testName of None \<Rightarrow> [] | Some vs \<Rightarrow> vs)"

definition traceable :: "knowledge_base \<Rightarrow> string \<Rightarrow> string \<Rightarrow> bool" where
  "traceable kb testName originalText =
     (sublist (toLowerCase testName) (normalize_text originalText)
      \<or> list_ex (\<lambda>alias. sublist (toLowerCase alias) (normalize_text originalText))
           (aliases_of kb testName)
      \<or> list_ex (\<lambda>variation. sublist variation (normalize_text originalText))
           (listed_variations (toLowerCase testName))
      \<or> list_ex (\<lambda>word. 3 \<le> length word \<and> edit_similarity (toLowerCase testName) word > 0.7)
           (split_ws (normalize_text originalText)))"

subsection \<open>Matching\<close>


definition poor_unit_match ::
  "rounding \<Rightarrow> nlp_libs option \<Rightarrow> knowledge_base \<Rightarrow> jsval \<Rightarrow> bool" where
  "poor_unit_match rnd libs kb unitToken =
     (case findBestUnitMatch rnd libs kb unitToken of None \<Rightarrow> True | Some m \<Rightarrow> tier m = ''low'')"

text \<open>The two objects that \<open>findBestTestMatch\<close> builds for the unit of a catalog entry.\<close>

definition default_unit :: "kb_entry \<Rightarrow> match_result" where
  "default_unit data = \<lparr>matched = e_unit data, similarity = 1, tier = ''default'', via = None\<rparr>"

definition assumed_unit :: "rounding \<Rightarrow> kb_entry \<Rightarrow> match_result" where
  "assumed_unit rnd data =
     \<lparr>matched = e_unit data, similarity = rnd 0.8, tier = ''assumed'', via = None\<rparr>"

text \<open>Arithmetic without rounding, for examples whose numbers are doubles as they stand.\<close>

definition exact_arithmetic :: rounding where
  "exact_arithmetic x = x"

section \<open>Example data\<close>

text \<open>Entries of \<open>knowledgeBase.js\<close>, as they stand there.\<close>

definition hemoglobin_entry :: kb_entry where
  "hemoglobin_entry =
     \<lparr>e_name = Some ''Hemoglobin'', e_unit = Some ''g/dL'',
      e_aliases = Some [''hgb'', ''hb'', ''hemglobin'', ''heoglobin'', ''hemglobin''],
      e_ref_range = Some (12.0, 15.0), e_normalRange = Some (12.0, 15.0),
      e_physicalLimits = Some (0, 30)\<rparr>"

definition wbc_entry :: kb_entry where
  "wbc_entry =
     \<lparr>e_name = Some ''WBC'', e_unit = Some ''/uL'',
      e_aliases = Some [''white blood cells'', ''white blood cell count'', ''wbc count''],
      e_ref_range = Some (4000, 11000), e_normalRange = Some (4000, 11000),
      e_physicalLimits = Some (0, 100000)\<rparr>"

definition rbc_entry :: kb_entry where
  "rbc_entry =
     \<lparr>e_name = Some ''RBC'', e_unit = Some ''mil/uL'',
      e_aliases = Some [''red blood cells'', ''red blood cell count'', ''rbc count''],
      e_ref_range = Some (4.2, 5.4), e_normalRange = Some (4.2, 5.4),
      e_physicalLimits = Some (0, 12)\<rparr>"

definition glucose_entry :: kb_entry where
  "glucose_entry =
     \<lparr>e_name = Some ''Glucose'', e_unit = Some ''mg/dL'',
      e_aliases = Some [''blood glucose'', ''sugar'', ''glucse'', ''fasting glucose''],
      e_ref_range = Some (70, 100), e_normalRange = Some (70, 100),
      e_physicalLimits = Some (0, 2000)\<rparr>"

definition ast_entry :: kb_entry where
  "ast_entry =
     \<lparr>e_name = Some ''AST'', e_unit = Some ''U/L'',
      e_aliases = Some [''aspartate aminotransferase'', ''sgot''],
      e_ref_range = Some (10, 40), e_normalRange = None,
      e_physicalLimits = None\<rparr>"

definition sample_kb :: knowledge_base where
  "sample_kb =
     [(''hemoglobin'', hemoglobin_entry),
      (''wbc'', wbc_entry),
      (''rbc'', rbc_entry),
      (''glucose'', glucose_entry),
      (''ast'', ast_entry)]"

definition mk_test :: "string \<Rightarrow> real \<Rightarrow> string \<Rightarrow> string \<Rightarrow> test" where
  "mk_test n v u s =
     \<lparr>t_name = SString n, t_value = JNumber (Fin v), t_unit = SString u, t_status = SString s\<rparr>"

text \<open>Records and texts used in the examples.\<close>

definition glucose_5000 :: test where
  "glucose_5000 = mk_test ''Glucose'' 5000 ''mg/dL'' ''high''"

definition glucose_5000_validation :: validation where
  "glucose_5000_validation =
     \<lparr>status = ''ok_with_warnings'', reason = None,
      warnings = [UnrealisticValue glucose_5000], errors = [], confidence = 0.6,
      validated_tests = [glucose_5000], rejected_tests = []\<rparr>"


definition cholesterol_220 :: test where
  "cholesterol_220 = mk_test ''Cholesterol'' 220 ''mg/dL'' ''high''"

text \<open>A record without a unit whose name contains the words \<open>not found in original\<close>.\<close>

definition marker_record :: test where
  "marker_record =
     \<lparr>t_name = SString ''not found in original'', t_value = JNumber (Fin 1),
      t_unit = SString [], t_status = SString ''low''\<rparr>"








text \<open>A record whose name is a name that \<open>Object.prototype\<close> defines.\<close>

definition constructor_5 :: test where
  "constructor_5 = mk_test ''constructor'' 5 ''mg/dL'' ''high''"



text \<open>A hemoglobin of 10.2 that the extraction marked \<open>high\<close>.\<close>

definition hemoglobin_extracted :: extracted_test where
  "hemoglobin_extracted =
     \<lparr>x_rawTestName = JString ''Hemoglobin'', x_value = JNumber (Fin 10.2),
      x_unit = JString ''g/dL'', x_status = SString ''high'', x_confidence = Some 0.9\<rparr>"

definition hemoglobin_normalized :: normalized_test where
  "hemoglobin_normalized =
     \<lparr>n_name = Some ''Hemoglobin'', n_value = Fin 10.2, n_unit = Some ''g/dL'',
      n_status = ''low'', n_ref_range = (12.0, 15.0)\<rparr>"

section \<open>Properties\<close>

subsection \<open>Strings\<close>

lemma lower_char_code:
  "lower_char c =
     (let n = (of_char c :: nat)
      in if (65 \<le> n \<and> n \<le> 90) \<or> (192 \<le> n \<and> n \<le> 222 \<and> n \<noteq> 215)
         then char_of (n + 32) else c)"
  by (cases c) (auto simp: Let_def char_of_def bit_simps)

lemma is_ws_code:
  "is_ws c = (let n = (of_char c :: nat) in (9 \<le> n \<and> n \<le> 13) \<or> n = 32 \<or> n = 160)"
  by (cases c) (auto simp: Let_def)

lemma is_lower_alnum_code:
  "is_lower_alnum c =
     (let n = (of_char c :: nat) in (97 \<le> n \<and> n \<le> 122) \<or> (48 \<le> n \<and> n \<le> 57))"
  by (cases c) (auto simp: Let_def)

lemma str_includes_sublist: "str_includes s sub \<longleftrightarrow> sublist sub s"
  by (induction s) (auto simp: sublist_Cons_right)

subsection \<open>The matrix computes the Levenshtein distance\<close>

lemma levenshtein_Nil2 [simp]: "levenshtein xs [] = length xs"
  by (cases xs) auto

lemma levenshtein_sym: "levenshtein xs ys = levenshtein ys xs"
  by (induction xs ys rule: levenshtein.induct) (auto simp: min.commute min.left_commute)

lemma levenshtein_Cons2_le: "levenshtein xs (y # ys) \<le> levenshtein xs ys + 1"
  by (cases xs) auto

lemma levenshtein_Cons1_le: "levenshtein (x # xs) ys \<le> levenshtein xs ys + 1"
  by (cases ys) auto

lemma levenshtein_drop1: "levenshtein xs ys \<le> levenshtein (x # xs) ys + 1"
proof (induction ys arbitrary: xs x)
  case Nil
  then show ?case by simp
next
  case (Cons y ys)
  have a: "levenshtein xs (y # ys) \<le> levenshtein xs ys + 1" by (rule levenshtein_Cons2_le)
  have b: "levenshtein xs ys \<le> levenshtein (x # xs) ys + 1" by (rule Cons.IH)
  show ?case using a b by (auto simp: min_def)
qed

lemma levenshtein_drop2: "levenshtein xs ys \<le> levenshtein xs (y # ys) + 1"
  using levenshtein_drop1 [of ys xs y] by (simp add: levenshtein_sym)

lemma levenshtein_Cons_same: "levenshtein (x # xs) (x # ys) = levenshtein xs ys"
  using levenshtein_drop1 [of xs ys x] levenshtein_drop2 [of xs ys x]
  by (simp add: min_def)

lemma levenshtein_Cons_diff:
  "x \<noteq> y \<Longrightarrow> levenshtein (x # xs) (y # ys) =
     min (min (levenshtein xs ys + 1) (levenshtein (x # xs) ys + 1)) (levenshtein xs (y # ys) + 1)"
  by (simp add: min.commute min.left_commute)

lemma fill_row_correct:
  "fill_row c as (map (\<lambda>p. prefix_distance (pre @ p) q) (tl (prefixes as))) (prefix_distance pre q) (prefix_distance pre (q @ [c]))
     = map (\<lambda>p. prefix_distance (pre @ p) (q @ [c])) (tl (prefixes as))"
proof (induction as arbitrary: pre)
  case Nil
  then show ?case by simp
next
  case (Cons a as)
  have step: "(if c = a then prefix_distance pre q
         else min (min (prefix_distance pre q + 1) (prefix_distance pre (q @ [c]) + 1)) (prefix_distance (pre @ [a]) q + 1))
        = prefix_distance (pre @ [a]) (q @ [c])"
    by (cases "c = a")
       (simp_all add: prefix_distance_def levenshtein_Cons_same levenshtein_Cons_diff min.commute min.left_commute
          del: levenshtein.simps(3))
  have tlp: "tl (prefixes (a # as)) = [a] # map ((#) a) (tl (prefixes as))"
    by (cases as) auto
  have ups: "map (\<lambda>p. prefix_distance (pre @ p) q) (tl (prefixes (a # as)))
               = prefix_distance (pre @ [a]) q # map (\<lambda>p. prefix_distance ((pre @ [a]) @ p) q) (tl (prefixes as))"
    unfolding tlp by (simp add: o_def)
  have res: "map (\<lambda>p. prefix_distance (pre @ p) (q @ [c])) (tl (prefixes (a # as)))
               = prefix_distance (pre @ [a]) (q @ [c]) # map (\<lambda>p. prefix_distance ((pre @ [a]) @ p) (q @ [c])) (tl (prefixes as))"
    unfolding tlp by (simp add: o_def)
  show ?case
    unfolding ups res
    using Cons.IH [of "pre @ [a]"] step
    by (simp add: Let_def)
qed

lemma next_row_correct:
  "next_row (Suc (length q)) c str1 (map (\<lambda>p. prefix_distance p q) (prefixes str1))
     = map (\<lambda>p. prefix_distance p (q @ [c])) (prefixes str1)"
proof -
  have p: "prefixes str1 = [] # tl (prefixes str1)" by (cases str1) auto
  have "next_row (Suc (length q)) c str1 (map (\<lambda>p. prefix_distance p q) (prefixes str1))
        = Suc (length q) # fill_row c str1 (map (\<lambda>p. prefix_distance ([] @ p) q) (tl (prefixes str1))) (prefix_distance [] q) (prefix_distance [] (q @ [c]))"
    by (subst p) (simp add: next_row_def prefix_distance_def map_tl)
  also have "\<dots> = Suc (length q) # map (\<lambda>p. prefix_distance ([] @ p) (q @ [c])) (tl (prefixes str1))"
    by (simp only: fill_row_correct)
  also have "\<dots> = map (\<lambda>p. prefix_distance p (q @ [c])) (prefixes str1)"
    by (subst (2) p) (simp add: prefix_distance_def)
  finally show ?thesis .
qed

lemma lev_rows_correct:
  "lev_rows (Suc (length q)) cs str1 (map (\<lambda>p. prefix_distance p q) (prefixes str1))
     = map (\<lambda>p. prefix_distance p (q @ cs)) (prefixes str1)"
proof (induction cs arbitrary: q)
  case Nil
  then show ?case by simp
next
  case (Cons c cs)
  show ?case
    using Cons.IH [of "q @ [c]"] by (simp add: next_row_correct)
qed

lemma length_prefixes_upt: "map length (prefixes xs) = [0..<Suc (length xs)]"
proof (induction xs)
  case Nil
  then show ?case by simp
next
  case (Cons x xs)
  have "map length (prefixes (x # xs)) = 0 # map Suc (map length (prefixes xs))"
    by (simp add: o_def)
  also have "\<dots> = 0 # map Suc [0..<Suc (length xs)]"
    by (simp only: Cons.IH)
  also have "\<dots> = 0 # [Suc 0..<Suc (Suc (length xs))]"
    by (simp only: map_Suc_upt)
  also have "\<dots> = [0..<Suc (length (x # xs))]"
    by (simp add: upt_rec [of 0] del: upt_Suc)
  finally show ?case .
qed

lemma row0: "[0..<Suc (length str1)] = map (\<lambda>p. prefix_distance p []) (prefixes str1)"
  using length_prefixes_upt [of str1] by (simp add: prefix_distance_def del: upt_Suc)

lemma levenshteinDistance_rev:
  "levenshteinDistance str1 str2 = levenshtein (rev str1) (rev str2)"
proof -
  have "lev_rows (Suc (length ([] :: string))) str2 str1 (map (\<lambda>p. prefix_distance p []) (prefixes str1))
          = map (\<lambda>p. prefix_distance p ([] @ str2)) (prefixes str1)"
    by (rule lev_rows_correct)
  then have "lev_rows 1 str2 str1 [0..<Suc (length str1)] = map (\<lambda>p. prefix_distance p str2) (prefixes str1)"
    by (simp add: row0 [symmetric] del: upt_Suc)
  then show ?thesis
    by (simp add: levenshteinDistance_def last_map prefix_distance_def del: upt_Suc)
qed


lemma min3_transpose:
  fixes a b c e f g h i j :: nat
  shows "min (min (min (min a b) c) (min (min e f) g)) (min (min h i) j)
       = min (min (min (min a e) h) (min (min b f) i)) (min (min c g) j)"
  by (simp only: min.assoc min.commute min.left_commute)

lemma nine_terms:
  fixes A B C E F G H I J d d0 k :: nat
  shows "min (min (min (min (A + k) (B + k)) (C + d) + k) (min (min (E + k) (F + k)) (G + d) + k))
             (min (min (H + k) (I + k)) (J + d) + d0)
       = min (min (min (min (A + k) (E + k)) (H + d0) + k) (min (min (B + k) (F + k)) (I + d0) + k))
             (min (min (C + k) (G + k)) (J + d0) + d)"
proof -
  have "min (min (min (min (A + k) (B + k)) (C + d) + k) (min (min (E + k) (F + k)) (G + d) + k))
             (min (min (H + k) (I + k)) (J + d) + d0)
      = min (min (min (min (A + k + k) (B + k + k)) (C + d + k))
                 (min (min (E + k + k) (F + k + k)) (G + d + k)))
            (min (min (H + k + d0) (I + k + d0)) (J + d + d0))"
    by (simp only: min_add_distrib_left)
  also have "\<dots> = min (min (min (min (A + k + k) (E + k + k)) (H + k + d0))
                 (min (min (B + k + k) (F + k + k)) (I + k + d0)))
            (min (min (C + d + k) (G + d + k)) (J + d + d0))"
    by (rule min3_transpose)
  also have "\<dots> = min (min (min (min (A + k) (E + k)) (H + d0) + k) (min (min (B + k) (F + k)) (I + d0) + k))
             (min (min (C + k) (G + k)) (J + d0) + d)"
    by (simp only: min_add_distrib_left) (simp only: add.commute add.left_commute add.assoc)
  finally show ?thesis .
qed

lemma levenshtein_single_snoc:
  "levenshtein [x] (b @ [y]) =
     min (min (length b + 2) (levenshtein [x] b + 1)) (length b + (if x = y then 0 else 1))"
proof (induction b)
  case Nil
  then show ?case by simp
next
  case (Cons b0 b)
  have "levenshtein [x] ((b0 # b) @ [y])
        = min (min (length b + 3) (levenshtein [x] (b @ [y]) + 1))
              (length b + 1 + (if x = b0 then 0 else 1))"
    by simp
  also have "\<dots> = min (min (length (b0 # b) + 2) (levenshtein [x] (b0 # b) + 1))
                       (length (b0 # b) + (if x = y then 0 else 1))"
    unfolding Cons.IH by (simp add: min_def)
  finally show ?case .
qed

lemma levenshtein_snoc:
  "levenshtein (a @ [x]) (b @ [y]) =
     min (min (levenshtein a (b @ [y]) + 1) (levenshtein (a @ [x]) b + 1))
         (levenshtein a b + (if x = y then 0 else 1))"
proof (induction a b rule: levenshtein.induct)
  case (1 ys)
  show ?case
    using levenshtein_single_snoc [of x ys y] by (simp add: min.commute min.left_commute)
next
  case (2 x0 xs)
  let ?a = "x0 # xs"
  have "levenshtein (?a @ [x]) [y] = levenshtein [y] (?a @ [x])"
    by (rule levenshtein_sym)
  also have "\<dots> = min (min (length ?a + 2) (levenshtein [y] ?a + 1))
                       (length ?a + (if y = x then 0 else 1))"
    by (rule levenshtein_single_snoc)
  also have "\<dots> = min (min (levenshtein [y] ?a + 1) (length ?a + 2))
                       (length ?a + (if x = y then 0 else 1))"
    by (simp only: min.commute eq_commute)
  also have "levenshtein [y] ?a = levenshtein ?a [y]"
    by (rule levenshtein_sym)
  finally have "levenshtein (?a @ [x]) [y] =
      min (min (levenshtein ?a [y] + 1) (length ?a + 2)) (length ?a + (if x = y then 0 else 1))" .
  moreover have "levenshtein (?a @ [x]) [] + 1 = length ?a + 2"
    by (simp only: levenshtein_Nil2 length_append) simp
  moreover have "levenshtein ?a [] = length ?a"
    by (simp only: levenshtein_Nil2)
  ultimately show ?case
    by (simp only: append_Nil)
next
  case (3 x0 xs y0 ys)
  let ?d = "if x = y then 0 else 1 :: nat"
  let ?dd = "if x0 = y0 then 0 else 1 :: nat"
  let ?A = "levenshtein xs (y0 # ys @ [y])"
  let ?B = "levenshtein (xs @ [x]) (y0 # ys)"
  let ?C = "levenshtein xs (y0 # ys)"
  let ?E = "levenshtein (x0 # xs) (ys @ [y])"
  let ?F = "levenshtein (x0 # xs @ [x]) ys"
  let ?G = "levenshtein (x0 # xs) ys"
  let ?H = "levenshtein xs (ys @ [y])"
  let ?I = "levenshtein (xs @ [x]) ys"
  let ?J = "levenshtein xs ys"
  have ih1: "levenshtein (xs @ [x]) (y0 # ys @ [y]) = min (min (?A + 1) (?B + 1)) (?C + ?d)"
    using 3(1) by (simp only: append_Cons)
  have ih2: "levenshtein (x0 # xs @ [x]) (ys @ [y]) = min (min (?E + 1) (?F + 1)) (?G + ?d)"
    using 3(2) by (simp only: append_Cons)
  have ih3: "levenshtein (xs @ [x]) (ys @ [y]) = min (min (?H + 1) (?I + 1)) (?J + ?d)"
    using 3(3) by (simp only: append_Cons)
  have lhs: "levenshtein ((x0 # xs) @ [x]) ((y0 # ys) @ [y])
      = min (min (levenshtein (xs @ [x]) (y0 # ys @ [y]) + 1)
                 (levenshtein (x0 # xs @ [x]) (ys @ [y]) + 1))
            (levenshtein (xs @ [x]) (ys @ [y]) + ?dd)"
    by (simp only: append_Cons levenshtein.simps(3))
  have r1: "levenshtein (x0 # xs) ((y0 # ys) @ [y]) = min (min (?A + 1) (?E + 1)) (?H + ?dd)"
    by (simp only: append_Cons levenshtein.simps(3))
  have r2: "levenshtein ((x0 # xs) @ [x]) (y0 # ys) = min (min (?B + 1) (?F + 1)) (?I + ?dd)"
    by (simp only: append_Cons levenshtein.simps(3))
  have r3: "levenshtein (x0 # xs) (y0 # ys) = min (min (?C + 1) (?G + 1)) (?J + ?dd)"
    by (simp only: append_Cons levenshtein.simps(3))
  show ?case
    unfolding lhs ih1 ih2 ih3 r1 r2 r3 by (rule nine_terms)
qed

lemma levenshtein_rev: "levenshtein (rev a) (rev b) = levenshtein a b"
proof (induction a b rule: levenshtein.induct)
  case (1 ys)
  then show ?case by simp
next
  case (2 x xs)
  then show ?case by simp
next
  case (3 x xs y ys)
  have "levenshtein (rev (x # xs)) (rev (y # ys))
        = levenshtein (rev xs @ [x]) (rev ys @ [y])"
    by simp
  also have "\<dots> = min (min (levenshtein (rev xs) (rev ys @ [y]) + 1)
                            (levenshtein (rev xs @ [x]) (rev ys) + 1))
                       (levenshtein (rev xs) (rev ys) + (if x = y then 0 else 1))"
    by (rule levenshtein_snoc)
  also have "\<dots> = min (min (levenshtein xs (y # ys) + 1) (levenshtein (x # xs) ys + 1))
                       (levenshtein xs ys + (if x = y then 0 else 1))"
    using 3 by simp
  also have "\<dots> = levenshtein (x # xs) (y # ys)"
    by simp
  finally show ?case .
qed

lemma levenshteinDistance_correct: "levenshteinDistance str1 str2 = levenshtein str1 str2"
  by (simp add: levenshteinDistance_rev levenshtein_rev)

lemma levenshtein_le_max: "levenshtein xs ys \<le> max (length xs) (length ys)"
proof (induction xs ys rule: levenshtein.induct)
  case (1 ys)
  then show ?case by simp
next
  case (2 x xs)
  then show ?case by simp
next
  case (3 x xs y ys)
  have "levenshtein (x # xs) (y # ys) \<le> levenshtein xs ys + 1"
    by (simp add: min_def)
  also have "\<dots> \<le> max (length xs) (length ys) + 1"
    using 3(3) by simp
  finally show ?case by simp
qed

text \<open>
  C8. For every pair of strings the edit-distance similarity \<open>levenshteinSimilarity\<close> is 1
  when both strings are empty and otherwise 1 minus the Levenshtein distance of the two
  strings divided by the larger of their lengths; it lies between 0 and 1.
\<close>

theorem levenshteinSimilarity_formula:
  "levenshteinSimilarity a b =
     (if a = [] \<and> b = [] then 1
      else 1 - real (levenshtein a b) / real (max (length a) (length b)))
   \<and> 0 \<le> levenshteinSimilarity a b \<and> levenshteinSimilarity a b \<le> 1"
proof -
  let ?m = "max (length a) (length b)"
  have eq: "levenshteinSimilarity a b =
      (if a = [] \<and> b = [] then 1 else 1 - real (levenshtein a b) / real ?m)"
    by (auto simp: levenshteinSimilarity_def Let_def levenshteinDistance_correct)
  have le: "real (levenshtein a b) \<le> real ?m"
    using levenshtein_le_max [of a b] by simp
  have bounds: "0 \<le> 1 - real (levenshtein a b) / real ?m \<and> 1 - real (levenshtein a b) / real ?m \<le> 1"
    if "?m > 0"
    using that le by (simp add: divide_le_eq)
  have "?m > 0" if "\<not> (a = [] \<and> b = [])"
    using that by (cases a; cases b) simp_all
  with eq bounds show ?thesis
    by (cases "a = [] \<and> b = []") simp_all
qed

subsection \<open>The loop of validateTests\<close>

lemma final_status_fields [simp]:
  "confidence (final_status v) = confidence v"
  "warnings (final_status v) = warnings v"
  "validated_tests (final_status v) = validated_tests v"
  "rejected_tests (final_status v) = rejected_tests v"
  "errors (final_status v) = errors v"
  by (simp_all add: final_status_def)

lemma accept_test_fields [simp]:
  "status (accept_test t tv v) = status v"
  "validated_tests (accept_test t tv v) = validated_tests v @ [t]"
  "rejected_tests (accept_test t tv v) = rejected_tests v"
  "errors (accept_test t tv v) = errors v"
  by (simp_all add: accept_test_def Let_def)

lemma reject_test_fields [simp]:
  "status (reject_test t why v) = status v"
  "validated_tests (reject_test t why v) = validated_tests v"
  "warnings (reject_test t why v) = warnings v"
  "confidence (reject_test t why v) = confidence v"
  "rejected_tests (reject_test t why v) = rejected_tests v @ [(t, why)]"
  "errors (reject_test t why v) = errors v @ [why]"
  by (simp_all add: reject_test_def)

lemma loop_inv_initial: "loop_inv initial_validation"
  by (simp add: loop_inv_def initial_validation_def)

lemma loop_inv_accept: "loop_inv v \<Longrightarrow> loop_inv (accept_test t tv v)"
  by (auto simp: loop_inv_def accept_test_def Let_def)

lemma loop_inv_reject: "loop_inv v \<Longrightarrow> loop_inv (reject_test t why v)"
  by (simp add: loop_inv_def)

lemma final_status_rule:
  assumes "status v = ''ok''"
  shows "status (final_status v) =
     (if confidence v < 0.3 then ''unprocessed''
      else if confidence v < 0.6 then ''low_confidence''
      else if warnings v \<noteq> [] then ''ok_with_warnings''
      else ''ok'')"
  using assms by (simp add: final_status_def)

lemma final_status_no_warnings:
  "loop_inv v \<Longrightarrow> warnings v = [] \<Longrightarrow> status (final_status v) = ''ok''"
  by (simp add: final_status_def loop_inv_def)

lemma validate_loop_completed:
  "validate_loop kb txt ts v = Completed v' \<Longrightarrow> loop_inv v \<Longrightarrow>
     status v' =
       (if confidence v' < 0.3 then ''unprocessed''
        else if confidence v' < 0.6 then ''low_confidence''
        else if warnings v' \<noteq> [] then ''ok_with_warnings''
        else ''ok'')
     \<and> (warnings v' = [] \<longrightarrow> status v' = ''ok'')"
proof (induction ts arbitrary: v)
  case Nil
  then have v': "v' = final_status v" by simp
  have ok: "status v = ''ok''" using Nil.prems(2) by (simp add: loop_inv_def)
  show ?case
    unfolding v'
    using final_status_rule [OF ok] final_status_no_warnings [OF Nil.prems(2)]
    by simp
next
  case (Cons t ts)
  show ?case
  proof (cases "validateSingleTest kb t txt")
    case (Inl e)
    with Cons.prems(1) show ?thesis by simp
  next
    case (Inr tv)
    show ?thesis
    proof (cases "isValid tv")
      case True
      with Inr Cons.prems(1) have "validate_loop kb txt ts (accept_test t tv v) = Completed v'"
        by simp
      then show ?thesis
        by (rule Cons.IH) (rule loop_inv_accept [OF Cons.prems(2)])
    next
      case False
      let ?why = "case rejectionReason tv of Some w \<Rightarrow> w | None \<Rightarrow> []"
      from False Inr Cons.prems(1)
      have "validate_loop kb txt ts (reject_test t ?why v) = Completed v'"
        by (simp add: Let_def split: if_splits)
      then show ?thesis
        by (rule Cons.IH) (rule loop_inv_reject [OF Cons.prems(2)])
    qed
  qed
qed

subsection \<open>One record in the loop\<close>

lemma validateSingleTest_malformed:
  "\<not> isValidTestStructure t \<Longrightarrow>
     validateSingleTest kb t txt =
       Inr \<lparr>isValid = False, r_warnings = [], r_confidence = 1,
            rejectionReason = Some (structure_reason t)\<rparr>"
  by (simp add: validateSingleTest_def reject_def)

lemma validateSingleTest_untraceable:
  "fails_traceability kb txt t \<Longrightarrow>
     \<exists>tv. validateSingleTest kb t txt = Inr tv \<and> \<not> isValid tv
          \<and> rejectionReason tv = Some (hallucination_reason t)"
  by (simp add: validateSingleTest_def fails_traceability_def reject_def Let_def)

lemma validateSingleTest_passes:
  "passes_checks kb txt t \<Longrightarrow> isUnitValid kb t = Inr unitValid \<Longrightarrow>
     validateSingleTest kb t txt =
       Inr \<lparr>isValid = True, r_warnings = warnings_of kb t, r_confidence = penalty kb t,
            rejectionReason = None\<rparr>"
  by (simp add: validateSingleTest_def passes_checks_def Let_def add_warning_def
      warnings_of_def penalty_def)

lemma raises_iff:
  "raises kb txt t \<longleftrightarrow>
     isValidTestStructure t
     \<and> (isTestMentionedInOriginal kb (the_str (t_name t)) txt = Inl TypeError
        \<or> (isTestMentionedInOriginal kb (the_str (t_name t)) txt = Inr True
            \<and> isUnitValid kb t = Inl TypeError))"
proof -
  have e: "x = TypeError" for x :: error by (cases x) simp
  show ?thesis
    by (auto simp: raises_def validateSingleTest_def Let_def e
        split: sum.splits if_splits)
qed

lemma validateSingleTest_raises:
  "raises kb txt t \<Longrightarrow> validateSingleTest kb t txt = Inl TypeError"
proof -
  have e: "x = TypeError" for x :: error by (cases x) simp
  show "raises kb txt t \<Longrightarrow> validateSingleTest kb t txt = Inl TypeError"
    by (auto simp: raises_def e split: sum.splits)
qed

lemma unit_check_returns:
  "passes_checks kb txt t \<Longrightarrow> \<not> raises kb txt t \<Longrightarrow> \<exists>b. isUnitValid kb t = Inr b"
proof -
  assume p: "passes_checks kb txt t" and r: "\<not> raises kb txt t"
  have e: "x = TypeError" for x :: error by (cases x) simp
  show ?thesis
  proof (cases "isUnitValid kb t")
    case (Inl x)
    with p r show ?thesis
      using e [of x] by (simp add: raises_iff passes_checks_def)
  next
    case (Inr b)
    then show ?thesis by simp
  qed
qed

lemma warnings_of_empty_penalty: "warnings_of kb t = [] \<Longrightarrow> penalty kb t = 1"
  by (auto simp: warnings_of_def penalty_def split: if_splits)

lemma hallucination_reason_marked:
  "str_includes (hallucination_reason t) ''not found in original''"
proof -
  have "hallucination_reason t =
      (''Test '' @ [CHR 0x27] @ show_field (t_name t) @ [CHR 0x27, CHR '' ''])
      @ ''not found in original'' @ '' text - potential hallucination''"
    by (simp add: hallucination_reason_def)
  then show ?thesis
    unfolding str_includes_sublist sublist_def by blast
qed

lemma validate_loop_step_raises:
  "raises kb txt t \<Longrightarrow> validate_loop kb txt (t # ts) v = Thrown TypeError"
  by (simp add: validateSingleTest_raises)

lemma validate_loop_step_passes:
  assumes "passes_checks kb txt t" "\<not> raises kb txt t"
  shows "validate_loop kb txt (t # ts) v =
           validate_loop kb txt ts
             (v\<lparr>validated_tests := validated_tests v @ [t],
                warnings := warnings v @ warnings_of kb t,
                confidence := confidence v * penalty kb t\<rparr>)"
proof -
  from unit_check_returns [OF assms] obtain b where b: "isUnitValid kb t = Inr b" ..
  note tv = validateSingleTest_passes [OF assms(1) b]
  show ?thesis
  proof (cases "warnings_of kb t = []")
    case True
    then show ?thesis
      using warnings_of_empty_penalty [OF True]
      by (simp add: tv accept_test_def Let_def)
  next
    case False
    then show ?thesis
      by (simp add: tv accept_test_def Let_def)
  qed
qed

lemma validate_loop_step_trigger:
  assumes "abort_trigger kb txt t"
  shows "\<exists>rej. validate_loop kb txt (t # ts) v =
           Aborted \<lparr>a_status = ''unprocessed'',
                    a_reason = ''hallucinated tests not present in input: '' @ show_field (t_name t),
                    a_confidence = 0, a_rejected_tests = rej\<rparr>"
  using assms unfolding abort_trigger_def
proof
  assume "fails_traceability kb txt t"
  from validateSingleTest_untraceable [OF this]
  obtain tv where "validateSingleTest kb t txt = Inr tv" "\<not> isValid tv"
    "rejectionReason tv = Some (hallucination_reason t)"
    by blast
  then show ?thesis
    using hallucination_reason_marked [of t]
    by (simp add: Let_def hallucination_verdict_def)
next
  assume "marked_malformed t"
  then show ?thesis
    by (simp add: marked_malformed_def validateSingleTest_malformed Let_def hallucination_verdict_def)
qed

lemma validate_loop_step_dropped:
  assumes "\<not> passes_checks kb txt t" "\<not> abort_trigger kb txt t" "\<not> raises kb txt t"
  shows "validate_loop kb txt (t # ts) v =
           validate_loop kb txt ts (reject_test t (structure_reason t) v)"
proof -
  have e: "x = TypeError" for x :: error by (cases x) simp
  have m: "\<not> isValidTestStructure t"
  proof
    assume s: "isValidTestStructure t"
    show False
    proof (cases "isTestMentionedInOriginal kb (the_str (t_name t)) txt")
      case (Inl x)
      with s assms(3) show False using e [of x] by (simp add: raises_iff)
    next
      case (Inr b)
      with s assms(1,2) show False
        by (cases b) (simp_all add: passes_checks_def abort_trigger_def fails_traceability_def)
    qed
  qed
  with assms(2) have "\<not> str_includes (structure_reason t) ''not found in original''"
    by (simp add: abort_trigger_def marked_malformed_def)
  with m show ?thesis
    by (simp add: validateSingleTest_malformed Let_def)
qed

lemma passes_not_trigger: "passes_checks kb txt t \<Longrightarrow> \<not> abort_trigger kb txt t"
  by (auto simp: passes_checks_def abort_trigger_def fails_traceability_def marked_malformed_def)

lemma trigger_not_raises: "abort_trigger kb txt t \<Longrightarrow> \<not> raises kb txt t"
  by (auto simp: abort_trigger_def fails_traceability_def marked_malformed_def raises_iff)

lemma validate_loop_no_trigger:
  "\<forall>t\<in>set ts. \<not> abort_trigger kb txt t \<and> \<not> raises kb txt t \<Longrightarrow>
     \<exists>v'. validate_loop kb txt ts v = Completed v'"
proof (induction ts arbitrary: v)
  case Nil
  then show ?case by simp
next
  case (Cons t ts)
  show ?case
  proof (cases "passes_checks kb txt t")
    case True
    then show ?thesis
      using Cons by (simp add: validate_loop_step_passes del: validate_loop.simps)
  next
    case False
    then show ?thesis
      using Cons by (simp add: validate_loop_step_dropped del: validate_loop.simps)
  qed
qed

lemma validate_loop_first_trigger:
  "\<forall>t\<in>set pre. \<not> abort_trigger kb txt t \<and> \<not> raises kb txt t \<Longrightarrow> abort_trigger kb txt t \<Longrightarrow>
     \<exists>rej. validate_loop kb txt (pre @ t # post) v =
           Aborted \<lparr>a_status = ''unprocessed'',
                    a_reason = ''hallucinated tests not present in input: '' @ show_field (t_name t),
                    a_confidence = 0, a_rejected_tests = rej\<rparr>"
proof (induction pre arbitrary: v)
  case Nil
  then show ?case
    using validate_loop_step_trigger [of kb _ t post v] by simp
next
  case (Cons p pre)
  show ?case
  proof (cases "passes_checks kb txt p")
    case True
    then show ?thesis
      using Cons by (simp add: validate_loop_step_passes del: validate_loop.simps)
  next
    case False
    then show ?thesis
      using Cons by (simp add: validate_loop_step_dropped del: validate_loop.simps)
  qed
qed

lemma validate_loop_accumulates:
  "validate_loop kb txt ts v = Completed v' \<Longrightarrow>
     validated_tests v' = validated_tests v @ filter (passes_checks kb txt) ts
     \<and> confidence v' = confidence v * prod_list (map (penalty kb) (filter (passes_checks kb txt) ts))
     \<and> warnings v' = warnings v @ concat (map (warnings_of kb) (filter (passes_checks kb txt) ts))
     \<and> (\<forall>t\<in>set ts. \<not> raises kb txt t)"
proof (induction ts arbitrary: v)
  case Nil
  then show ?case by auto
next
  case (Cons t ts)
  have nr: "\<not> raises kb txt t"
    using Cons.prems validate_loop_step_raises [of kb _ t ts v] by auto
  show ?case
  proof (cases "passes_checks kb txt t")
    case True
    let ?v = "v\<lparr>validated_tests := validated_tests v @ [t],
                warnings := warnings v @ warnings_of kb t,
                confidence := confidence v * penalty kb t\<rparr>"
    from Cons.prems True nr have "validate_loop kb txt ts ?v = Completed v'"
      by (simp add: validate_loop_step_passes del: validate_loop.simps)
    from Cons.IH [OF this] True nr show ?thesis
      by (simp add: mult.assoc)
  next
    case False
    show ?thesis
    proof (cases "abort_trigger kb txt t")
      case True
      then show ?thesis
        using validate_loop_step_trigger [OF True, of ts v] Cons.prems by auto
    next
      case nt: False
      from Cons.prems False nt nr
      have "validate_loop kb txt ts (reject_test t (structure_reason t) v) = Completed v'"
        by (simp add: validate_loop_step_dropped del: validate_loop.simps)
      from Cons.IH [OF this] False nr show ?thesis by simp
    qed
  qed
qed

subsection \<open>The checks, read on the data\<close>

lemma fold_bindings_values:
  "(\<And>k v. m k = Some v \<Longrightarrow> v \<in> S) \<Longrightarrow> snd ` set bs \<subseteq> S \<Longrightarrow>
     fold (\<lambda>(k, v) m'. m'(k \<mapsto> v)) bs m k' = Some v' \<Longrightarrow> v' \<in> S"
proof (induction bs arbitrary: m)
  case Nil
  then show ?case by simp
next
  case (Cons b bs)
  obtain k v where b: "b = (k, v)" by (cases b)
  show ?case
  proof (rule Cons.IH [of "m(k \<mapsto> v)"])
    show "\<And>k'' v''. (m(k \<mapsto> v)) k'' = Some v'' \<Longrightarrow> v'' \<in> S"
      using Cons.prems(1,2) b by (auto split: if_splits)
    show "snd ` set bs \<subseteq> S" using Cons.prems(2) by auto
    show "fold (\<lambda>(k, v) m'. m'(k \<mapsto> v)) bs (m(k \<mapsto> v)) k' = Some v'"
      using Cons.prems(3) b by (simp del: fun_upd_apply)
  qed
qed

lemma alias_bindings_values: "snd ` set (alias_bindings key data) = {key}"
  by (auto simp: alias_bindings_def image_iff split: option.splits)

lemma fold_entries_values:
  "(\<And>k v. m k = Some v \<Longrightarrow> v \<in> S) \<Longrightarrow> fst ` set kb \<subseteq> S \<Longrightarrow>
     fold (\<lambda>(key, data) m. fold (\<lambda>(k, v) m'. m'(k \<mapsto> v)) (alias_bindings key data) m) kb m k'
       = Some v' \<Longrightarrow> v' \<in> S"
proof (induction kb arbitrary: m)
  case Nil
  then show ?case by simp
next
  case (Cons e kb)
  obtain key data where e: "e = (key, data)" by (cases e)
  let ?m = "fold (\<lambda>(k, v) m'. m'(k \<mapsto> v)) (alias_bindings key data) m"
  show ?case
  proof (rule Cons.IH [of ?m])
    show "\<And>k v. ?m k = Some v \<Longrightarrow> v \<in> S"
    proof -
      fix k v assume "?m k = Some v"
      moreover have "snd ` set (alias_bindings key data) \<subseteq> S"
        using Cons.prems(2) e by (simp add: alias_bindings_values)
      ultimately show "v \<in> S"
        using fold_bindings_values [of m S "alias_bindings key data" k v] Cons.prems(1)
        by blast
    qed
    show "fst ` set kb \<subseteq> S" using Cons.prems(2) by auto
    show "fold (\<lambda>(key, data) m. fold (\<lambda>(k, v) m'. m'(k \<mapsto> v)) (alias_bindings key data) m) kb ?m k'
            = Some v'"
      using Cons.prems(3) e by (simp del: fun_upd_apply)
  qed
qed

lemma normalizeTestName_key:
  "normalizeTestName kb testName = Some key \<Longrightarrow> key \<in> fst ` set kb"
proof -
  assume "normalizeTestName kb testName = Some key"
  then have "buildAliasMap kb (trim (toLowerCase testName)) = Some key"
    by (auto simp: normalizeTestName_def Let_def split: option.splits if_splits)
  then show ?thesis
    unfolding buildAliasMap_def
    using fold_entries_values [of Map.empty "fst ` set kb" kb] by auto
qed

lemma plain_keys_key:
  "plain_keys kb \<Longrightarrow> key \<in> fst ` set kb \<Longrightarrow>
     key \<noteq> ''null'' \<and> \<not> List.member object_prototype key"
  by (auto simp: plain_keys_def list_all_iff)



lemma null_not_inherited: "''null'' \<notin> set object_prototype"
  by (simp add: object_prototype_def)


lemma plain_keys_null: "plain_keys kb \<Longrightarrow> kb_get kb ''null'' = None"
proof -
  assume r: "plain_keys kb"
  have "''null'' \<notin> fst ` set kb"
    using plain_keys_key [OF r, of "''null''"] by blast
  then have "map_of kb ''null'' = None"
    by (simp add: map_of_eq_None_iff)
  then show ?thesis
    by (simp add: kb_get_def get_property_def null_not_inherited)
qed









subsection \<open>The verdict\<close>

text \<open>
  C7. For every batch whose validation is not cut short by a hallucination, the status of
  the returned object is a function of its confidence and its warnings alone: below 0.3 it
  is \<open>unprocessed\<close>, from 0.3 and below 0.6 it is \<open>low_confidence\<close>, from 0.6 on it is
  \<open>ok_with_warnings\<close> when there is a warning and \<open>ok\<close> when there is none; and with no
  warning at all the status is \<open>ok\<close>.
\<close>

theorem validateTests_status_by_confidence:
  assumes "validateTests kb tests originalText = Completed v"
  shows "status v =
           (if confidence v < 0.3 then ''unprocessed''
            else if confidence v < 0.6 then ''low_confidence''
            else if warnings v \<noteq> [] then ''ok_with_warnings''
            else ''ok'')
         \<and> (warnings v = [] \<longrightarrow> status v = ''ok'')"
  using assms unfolding validateTests_def
  by (rule validate_loop_completed) (rule loop_inv_initial)

theorem validateTests_status_by_confidence_witness:
  "validateTests sample_kb [glucose_5000] (JString ''Glucose 5000 mg/dL (High)'')
     = Completed glucose_5000_validation
   \<and> status glucose_5000_validation = ''ok_with_warnings''"
proof -
  have run: "validateTests sample_kb [glucose_5000] (JString ''Glucose 5000 mg/dL (High)'')
               = Completed glucose_5000_validation"
    by code_simp
  from validateTests_status_by_confidence [OF run] show ?thesis
    using run by (simp add: glucose_5000_validation_def)
qed

text \<open>
  C10. For every list of extracted tests, the validated tests that the batch validation
  returns form a subsequence of the input in its order (and there are none in the object
  returned for a hallucination): records are dropped or kept, never added.
\<close>

theorem validateTests_validated_subseq:
  "subseq (verdict_validated (validateTests kb tests originalText)) tests"
proof (cases "validateTests kb tests originalText")
  case (Completed v)
  then have "validated_tests v = filter (passes_checks kb originalText) tests"
    unfolding validateTests_def
    by (auto dest: validate_loop_accumulates simp: initial_validation_def)
  with Completed show ?thesis by simp
next
  case (Aborted a)
  then show ?thesis by simp
next
  case (Thrown e)
  then show ?thesis by simp
qed






subsection \<open>Batches with an untraceable record\<close>

lemma validateTests_trigger_aborts:
  assumes "\<exists>t\<in>set tests. abort_trigger kb originalText t"
    and "\<forall>t\<in>set tests. \<not> raises kb originalText t"
  shows "\<exists>t\<in>set tests. \<exists>rej. abort_trigger kb originalText t
           \<and> validateTests kb tests originalText =
               Aborted \<lparr>a_status = ''unprocessed'',
                        a_reason = ''hallucinated tests not present in input: ''
                                     @ show_field (t_name t),
                        a_confidence = 0, a_rejected_tests = rej\<rparr>"
proof -
  from split_list_first_prop [OF assms(1)]
  obtain pre t post where
    split: "tests = pre @ t # post" and trig: "abort_trigger kb originalText t"
    and before: "\<forall>p\<in>set pre. \<not> abort_trigger kb originalText p"
    by blast
  from before assms(2) split
  have "\<forall>p\<in>set pre. \<not> abort_trigger kb originalText p \<and> \<not> raises kb originalText p"
    by simp
  from validate_loop_first_trigger [OF this trig]
  obtain rej where
    "validate_loop kb originalText (pre @ t # post) initial_validation =
       Aborted \<lparr>a_status = ''unprocessed'',
                a_reason = ''hallucinated tests not present in input: '' @ show_field (t_name t),
                a_confidence = 0, a_rejected_tests = rej\<rparr>"
    by blast
  with split trig show ?thesis
    unfolding validateTests_def by auto
qed

text \<open>
  Whenever a record of the batch fails the traceability check and no record makes the
  validation throw, the whole batch is rejected: the status is \<open>unprocessed\<close>, the
  confidence is 0 and no validated test is returned. The reason names a record at which
  the loop returns early.
\<close>

lemma validateTests_untraceable_rejects_batch:
  assumes "\<exists>t\<in>set tests. fails_traceability kb originalText t"
    and "\<forall>t\<in>set tests. \<not> raises kb originalText t"
  shows "verdict_status (validateTests kb tests originalText) = Some ''unprocessed''
       \<and> verdict_validated (validateTests kb tests originalText) = []
       \<and> (\<exists>t\<in>set tests. abort_trigger kb originalText t
            \<and> verdict_reason (validateTests kb tests originalText)
                = Some (''hallucinated tests not present in input: '' @ show_field (t_name t)))"
proof -
  from assms(1) have "\<exists>t\<in>set tests. abort_trigger kb originalText t"
    by (auto simp: abort_trigger_def)
  from validateTests_trigger_aborts [OF this assms(2)] show ?thesis
    by auto
qed

text \<open>
  When, moreover, no malformed record of the batch carries the words
  \<open>not found in original\<close> in its name, the record that the reason names is one that fails
  the traceability check.
\<close>

lemma validateTests_untraceable_named:
  assumes "\<exists>t\<in>set tests. fails_traceability kb originalText t"
    and "\<forall>t\<in>set tests. \<not> raises kb originalText t"
    and "\<forall>t\<in>set tests. \<not> marked_malformed t"
  shows "\<exists>t\<in>set tests. fails_traceability kb originalText t
            \<and> verdict_reason (validateTests kb tests originalText)
                = Some (''hallucinated tests not present in input: '' @ show_field (t_name t))"
  using validateTests_untraceable_rejects_batch [OF assms(1,2)] assms(3)
  by (auto simp: abort_trigger_def)

text \<open>
  C1 at an input where the code departs from it. The first record has no unit and the name
  \<open>not found in original\<close>, which the text contains; the second is a cholesterol result
  that the text does not mention. The batch is rejected, but the reason names the first
  record, which never reached the traceability check.
\<close>

theorem validateTests_names_malformed_record:
  "fails_traceability sample_kb (JString ''not found in original'') cholesterol_220
   \<and> \<not> isValidTestStructure marker_record
   \<and> isTestMentionedInOriginal sample_kb (the_str (t_name marker_record))
        (JString ''not found in original'') = Inr True
   \<and> validateTests sample_kb [marker_record, cholesterol_220] (JString ''not found in original'')
       = Aborted \<lparr>a_status = ''unprocessed'',
                  a_reason = ''hallucinated tests not present in input: not found in original'',
                  a_confidence = 0,
                  a_rejected_tests =
                    [(marker_record, ''Invalid test structure for not found in original'')]\<rparr>"
  by code_simp

subsection \<open>Batches without an original text\<close>

lemma isTestMentionedInOriginal_text_missing:
  "text_missing originalText \<Longrightarrow> isTestMentionedInOriginal kb testName originalText = Inr True"
  by (cases originalText) (simp_all add: text_missing_def isTestMentionedInOriginal_def)

lemma text_missing_no_untraceable:
  "text_missing originalText \<Longrightarrow> \<not> fails_traceability kb originalText t"
  by (simp add: fails_traceability_def isTestMentionedInOriginal_text_missing)

text \<open>
  Without an original text a batch in which no record makes the validation throw is
  rejected as hallucinated exactly when it holds a malformed record whose name carries the
  words \<open>not found in original\<close>.
\<close>

lemma text_missing_aborts_iff:
  assumes "text_missing originalText"
    and "\<forall>t\<in>set tests. \<not> raises kb originalText t"
  shows "(\<exists>a. validateTests kb tests originalText = Aborted a)
           \<longleftrightarrow> (\<exists>t\<in>set tests. marked_malformed t)"
proof
  assume ab: "\<exists>a. validateTests kb tests originalText = Aborted a"
  have "\<exists>t\<in>set tests. abort_trigger kb originalText t"
  proof (rule ccontr)
    assume "\<not> (\<exists>t\<in>set tests. abort_trigger kb originalText t)"
    with assms(2)
    have "\<forall>t\<in>set tests. \<not> abort_trigger kb originalText t \<and> \<not> raises kb originalText t"
      by blast
    from validate_loop_no_trigger [OF this]
    obtain v' where "validate_loop kb originalText tests initial_validation = Completed v'"
      by blast
    with ab show False
      by (simp add: validateTests_def)
  qed
  then show "\<exists>t\<in>set tests. marked_malformed t"
    using text_missing_no_untraceable [OF assms(1)] by (auto simp: abort_trigger_def)
next
  assume "\<exists>t\<in>set tests. marked_malformed t"
  then have "\<exists>t\<in>set tests. abort_trigger kb originalText t"
    by (auto simp: abort_trigger_def)
  from validateTests_trigger_aborts [OF this assms(2)]
  show "\<exists>a. validateTests kb tests originalText = Aborted a"
    by blast
qed

text \<open>
  C9 at an input where the code departs from it: no original text is given, and the one
  record of the batch, malformed and named \<open>not found in original\<close>, is reported as a
  hallucinated test.
\<close>

theorem validateTests_without_text_rejects:
  "text_missing JUndefined
   \<and> validateTests sample_kb [marker_record] JUndefined
       = Aborted \<lparr>a_status = ''unprocessed'',
                  a_reason = ''hallucinated tests not present in input: not found in original'',
                  a_confidence = 0,
                  a_rejected_tests =
                    [(marker_record, ''Invalid test structure for not found in original'')]\<rparr>"
  by code_simp

subsection \<open>Names that \<open>Object.prototype\<close> defines\<close>

text \<open>
  A record named \<open>constructor\<close> makes the validation throw when the text does not contain
  the name, and it is given limits that it cannot meet when the text does.
\<close>

lemma constructor_throws:
  "validateTests sample_kb [constructor_5] (JString ''Glucose 5000 mg/dL (High)'')
     = Thrown TypeError"
  by code_simp

lemma constructor_in_text:
  "validateTests sample_kb [constructor_5] (JString ''constructor 5 mg/dL (High)'')
     = Completed \<lparr>status = ''low_confidence'', reason = Some ''Multiple validation warnings detected'',
          warnings = [UnknownTest constructor_5, UnrealisticValue constructor_5], errors = [],
          confidence = 0.42, validated_tests = [constructor_5], rejected_tests = []\<rparr>"
  by code_simp

subsection \<open>The traceability check, read on the text\<close>

lemma any_included_sublist:
  "any_included normalizedText vs = list_ex (\<lambda>v. sublist v normalizedText) vs"
  by (induction vs) (simp_all add: str_includes_sublist)

lemma calculateSimilarity_edit:
  "3 \<le> length word \<Longrightarrow>
     calculateSimilarity testName word = Fin (edit_similarity testName word)"
  by (auto simp: calculateSimilarity_def edit_similarity_def Let_def levenshteinDistance_correct)

lemma fuzzy_words_edit:
  "fuzzy_words testName ws
     = list_ex (\<lambda>word. 3 \<le> length word \<and> edit_similarity testName word > 0.7) ws"
proof (induction ws)
  case Nil
  then show ?case by simp
next
  case (Cons w ws)
  show ?case
  proof (cases "3 \<le> length w")
    case True
    then show ?thesis
      using Cons by (simp add: calculateSimilarity_edit)
  next
    case False
    then show ?thesis
      using Cons by simp
  qed
qed

lemma mentioned_testData_entry:
  assumes "plain_keys kb" "plain_name testName"
  shows "mentioned_testData kb testName = entry_for_name kb testName"
proof -
  have a: "kb_get kb (toLowerCase testName) = map_of kb (toLowerCase testName)"
    using assms(2)
    by (simp add: kb_get_def plain_name_def get_property_def split: option.splits)
  have b: "kb_get kb (key_str (normalizeTestName kb testName))
      = (case normalizeTestName kb testName of None \<Rightarrow> None | Some key \<Rightarrow> map_of kb key)"
  proof (cases "normalizeTestName kb testName")
    case None
    then show ?thesis by (simp add: plain_keys_null [OF assms(1)])
  next
    case (Some key)
    from normalizeTestName_key [OF Some] obtain d where "map_of kb key = Some d"
      by (cases "map_of kb key") (auto simp: map_of_eq_None_iff)
    with Some show ?thesis
      by (simp add: kb_get_def get_property_def)
  qed
  show ?thesis
    unfolding mentioned_testData_def entry_for_name_def a b
    by (simp split: option.splits)
qed

lemma alias_mentioned_aliases:
  assumes "plain_keys kb" "plain_name testName"
  shows "alias_mentioned kb testName normalizedText
     = list_ex (\<lambda>alias. sublist (toLowerCase alias) normalizedText) (aliases_of kb testName)"
  unfolding alias_mentioned_def aliases_of_def mentioned_testData_entry [OF assms]
  by (auto simp: any_included_sublist aliases_list_def list_ex_iff split: option.splits)

lemma getCommonVariations_plain:
  "plain_name testName \<Longrightarrow>
     getCommonVariations (toLowerCase testName) =
       Some (case map_of variations (toLowerCase testName) of
               None \<Rightarrow> [toLowerCase testName] | Some vs \<Rightarrow> vs)"
  by (simp add: getCommonVariations_def get_property_def plain_name_def split: option.splits)

text \<open>
  C3, as amended. For a catalog with plain keys and a plain name, the traceability check
  returns, and it returns true exactly when the original text is missing (it is no string,
  or the empty string) or the name is traceable in it: read in lower case with every
  character other than \<open>a\<close>-\<open>z\<close>, \<open>0\<close>-\<open>9\<close> and white space replaced by a space, the text
  contains the lower-cased name, or a lower-cased alias of the catalog entry of the name, or
  one of the variations that the guardrail lists for the name, or a piece between white
  space, of three or more characters, whose edit-distance similarity to the lower-cased name
  exceeds 0.7.
\<close>

theorem isTestMentionedInOriginal_traceable:
  assumes "plain_keys kb" and "plain_name testName"
  shows "isTestMentionedInOriginal kb testName originalText =
           Inr (case originalText of
                  JString txt \<Rightarrow> txt = [] \<or> traceable kb testName txt
                | _ \<Rightarrow> True)"
proof (cases originalText)
  case (JString str)
  show ?thesis
  proof (cases "str = []")
    case True
    with JString show ?thesis by (simp add: isTestMentionedInOriginal_def)
  next
    case False
    let ?nt = "normalize_text str"
    let ?nl = "toLowerCase testName"
    have v: "(case getCommonVariations ?nl of
               None \<Rightarrow> Inl TypeError
             | Some commonVariations \<Rightarrow>
                 if any_included ?nt commonVariations then Inr True
                 else Inr (fuzzyMatchInText ?nl ?nt))
        = Inr (sublist ?nl ?nt
               \<or> list_ex (\<lambda>variation. sublist variation ?nt) (listed_variations ?nl)
               \<or> list_ex (\<lambda>word. 3 \<le> length word \<and> edit_similarity ?nl word > 0.7)
                    (split_ws ?nt))"
      if "\<not> sublist ?nl ?nt"
      using that
      by (simp add: getCommonVariations_plain [OF assms(2)] any_included_sublist
          listed_variations_def fuzzyMatchInText_def fuzzy_words_edit split: option.splits)
    show ?thesis
    proof (cases "sublist ?nl ?nt")
      case True
      with JString False show ?thesis
        by (simp add: isTestMentionedInOriginal_def Let_def str_includes_sublist traceable_def)
    next
      case ns: False
      show ?thesis
      proof (cases "alias_mentioned kb testName ?nt")
        case True
        with JString False ns show ?thesis
          using alias_mentioned_aliases [OF assms, of ?nt]
          by (simp add: isTestMentionedInOriginal_def Let_def str_includes_sublist traceable_def)
      next
        case na: False
        with JString False ns show ?thesis
          using alias_mentioned_aliases [OF assms, of ?nt] v [OF ns]
          by (simp add: isTestMentionedInOriginal_def Let_def str_includes_sublist traceable_def)
      qed
    qed
  qed
qed (simp_all add: isTestMentionedInOriginal_def)

lemma wbc_plain: "plain_keys sample_kb \<and> plain_name ''WBC''"
  by code_simp

theorem isTestMentionedInOriginal_traceable_witness:
  "plain_keys sample_kb \<and> plain_name ''WBC''
   \<and> isTestMentionedInOriginal sample_kb ''WBC'' (JString ''Leukocyte count 5000 /uL'') = Inr True
   \<and> traceable sample_kb ''WBC'' ''Leukocyte count 5000 /uL''
   \<and> isTestMentionedInOriginal sample_kb ''WBC'' (JString ''Glucose 5000 mg/dL'') = Inr False
   \<and> \<not> traceable sample_kb ''WBC'' ''Glucose 5000 mg/dL''"
proof -
  note p = wbc_plain
  have a: "traceable sample_kb ''WBC'' ''Leukocyte count 5000 /uL''"
    by code_simp
  have b: "\<not> traceable sample_kb ''WBC'' ''Glucose 5000 mg/dL''"
    by code_simp
  from isTestMentionedInOriginal_traceable [OF p [THEN conjunct1] p [THEN conjunct2],
      of "JString ''Leukocyte count 5000 /uL''"] a
  have c: "isTestMentionedInOriginal sample_kb ''WBC'' (JString ''Leukocyte count 5000 /uL'') = Inr True"
    by simp
  from isTestMentionedInOriginal_traceable [OF p [THEN conjunct1] p [THEN conjunct2],
      of "JString ''Glucose 5000 mg/dL''"] b
  have d: "isTestMentionedInOriginal sample_kb ''WBC'' (JString ''Glucose 5000 mg/dL'') = Inr False"
    by simp
  from c d show ?thesis
    using p a b by (intro conjI) simp_all
qed

text \<open>
  C3 as it is worded fails. The text \<open>Leukocyte count 5000 /uL\<close> contains neither \<open>WBC\<close>
  nor an alias of its catalog entry nor a piece similar to \<open>wbc\<close>, and the record passes
  the check, because \<open>leukocyte\<close> is among the variations that the guardrail lists for
  \<open>wbc\<close>. The empty text contains nothing at all, and every record passes the check.
\<close>

theorem traceable_without_occurrence:
  "isTestMentionedInOriginal sample_kb ''WBC'' (JString ''Leukocyte count 5000 /uL'') = Inr True
   \<and> \<not> claimed_traceable sample_kb ''WBC'' ''Leukocyte count 5000 /uL''
   \<and> isTestMentionedInOriginal sample_kb ''Hemoglobin'' (JString '''') = Inr True
   \<and> \<not> claimed_traceable sample_kb ''Hemoglobin'' ''''"
  by code_simp

subsection \<open>The similarity matcher\<close>

lemma levenshteinSimilarity_double_exact:
  "levenshteinSimilarity_double exact_arithmetic str1 str2 = levenshteinSimilarity str1 str2"
  by (simp add: levenshteinSimilarity_double_def levenshteinSimilarity_def Let_def
      exact_arithmetic_def fsub_def fdiv_def)

subsection \<open>Matching a name exactly\<close>









subsection \<open>The unit in a composed match\<close>

text \<open>
  C4, as amended. Whenever the name is matched and the catalog holds an entry under the
  matched key, \<open>findBestTestMatch\<close> returns a match with that name match, whatever the unit
  is. A missing unit (a value that counts as false) yields the unit of the entry at
  similarity 1 with tier \<open>default\<close>; a supplied unit that matches poorly (no match at all,
  or a match of tier \<open>low\<close>) yields the unit of the entry at similarity 0.8 with tier
  \<open>assumed\<close>; any other supplied unit keeps its own match.
\<close>

theorem findBestTestMatch_unit_policy:
  assumes "findBestTestNameMatch rnd libs kb testName = Some nameMatch"
    and "kb_get kb (prop_name (matched nameMatch)) = Some data"
  shows "\<exists>r. findBestTestMatch rnd libs kb testName unitToken statusToken = Some r
           \<and> name_match r = nameMatch
           \<and> testKey r = matched nameMatch
           \<and> unit_match r =
               (if \<not> truthy unitToken then default_unit data
                else if poor_unit_match rnd libs kb unitToken then assumed_unit rnd data
                else the (findBestUnitMatch rnd libs kb unitToken))"
  using assms
  by (auto simp: findBestTestMatch_def Let_def default_unit_def assumed_unit_def
      poor_unit_match_def split: option.splits)

lemma hemoglobin_name_match:
  "findBestTestNameMatch exact_arithmetic None sample_kb (JString ''Hemoglobin'')
     = Some (exact ''hemoglobin'' ''direct_lookup'')
   \<and> kb_get sample_kb (prop_name (matched (exact ''hemoglobin'' ''direct_lookup'')))
       = Some hemoglobin_entry"
  by code_simp

lemma zzz_poor: "truthy (JString ''zzz'') \<and> poor_unit_match exact_arithmetic None sample_kb (JString ''zzz'')"
  by code_simp

theorem findBestTestMatch_unit_policy_witness:
  "findBestTestNameMatch exact_arithmetic None sample_kb (JString ''Hemoglobin'')
     = Some (exact ''hemoglobin'' ''direct_lookup'')
   \<and> kb_get sample_kb (prop_name (matched (exact ''hemoglobin'' ''direct_lookup'')))
       = Some hemoglobin_entry
   \<and> truthy (JString ''zzz'')
   \<and> poor_unit_match exact_arithmetic None sample_kb (JString ''zzz'')
   \<and> (\<exists>r. findBestTestMatch exact_arithmetic None sample_kb (JString ''Hemoglobin'')
              (JString ''zzz'') (JString ''low'') = Some r
            \<and> unit_match r = assumed_unit exact_arithmetic hemoglobin_entry)
   \<and> (\<exists>r. findBestTestMatch exact_arithmetic None sample_kb (JString ''Hemoglobin'')
              JUndefined (JString ''low'') = Some r
            \<and> unit_match r = default_unit hemoglobin_entry)"
proof -
  note n = hemoglobin_name_match
  from findBestTestMatch_unit_policy [OF n [THEN conjunct1] n [THEN conjunct2],
      of "JString ''zzz''" "JString ''low''"] zzz_poor
  have a: "\<exists>r. findBestTestMatch exact_arithmetic None sample_kb (JString ''Hemoglobin'')
              (JString ''zzz'') (JString ''low'') = Some r
            \<and> unit_match r = assumed_unit exact_arithmetic hemoglobin_entry"
    by auto
  from findBestTestMatch_unit_policy [OF n [THEN conjunct1] n [THEN conjunct2],
      of JUndefined "JString ''low''"]
  have b: "\<exists>r. findBestTestMatch exact_arithmetic None sample_kb (JString ''Hemoglobin'')
              JUndefined (JString ''low'') = Some r
            \<and> unit_match r = default_unit hemoglobin_entry"
    by auto
  from a b show ?thesis
    using n zzz_poor by (intro conjI) simp_all
qed

text \<open>
  C4 as it is worded fails: the two tiers are the other way round. For a hemoglobin result
  without a unit the unit of the entry comes back at similarity 1 with tier \<open>default\<close>, not
  at 0.8 with tier \<open>assumed\<close>; with the unit \<open>zzz\<close>, which matches no unit at all, it comes
  back at 0.8 with tier \<open>assumed\<close>, not at 1 with tier \<open>default\<close>. (Every score of the second
  run is 0 or 1, so its arithmetic is exact in doubles.)
\<close>

theorem unit_tiers_the_other_way_round:
  "(\<forall>rnd. map_option unit_match
            (findBestTestMatch rnd None sample_kb (JString ''Hemoglobin'') JUndefined
               (JString ''low''))
          = Some \<lparr>matched = Some ''g/dL'', similarity = 1, tier = ''default'', via = None\<rparr>)
   \<and> map_option unit_match
        (findBestTestMatch exact_arithmetic None sample_kb (JString ''Hemoglobin'') (JString ''zzz'')
           (JString ''low''))
       = Some \<lparr>matched = Some ''g/dL'', similarity = 0.8, tier = ''assumed'', via = None\<rparr>
   \<and> findBestUnitMatch exact_arithmetic None sample_kb (JString ''zzz'') = None"
proof -
  have a: "map_option unit_match
            (findBestTestMatch rnd None sample_kb (JString ''Hemoglobin'') JUndefined
               (JString ''low''))
          = Some \<lparr>matched = Some ''g/dL'', similarity = 1, tier = ''default'', via = None\<rparr>"
    for rnd
    by code_simp
  have b: "map_option unit_match
        (findBestTestMatch exact_arithmetic None sample_kb (JString ''Hemoglobin'') (JString ''zzz'')
           (JString ''low''))
       = Some \<lparr>matched = Some ''g/dL'', similarity = 0.8, tier = ''assumed'', via = None\<rparr>"
    by code_simp
  have c: "findBestUnitMatch exact_arithmetic None sample_kb (JString ''zzz'') = None"
    by code_simp
  from a b c show ?thesis by blast
qed

subsection \<open>The normalizer\<close>

lemma fallback_name_plain:
  assumes "rawName \<noteq> []"
    and "case findBestTestNameMatch rnd libs kb (JString rawName) of
           None \<Rightarrow> True | Some testMatch \<Rightarrow> tier testMatch = ''low''"
  shows "get_property testNameMappings (toLowerCase (trim rawName))
           = (case map_of testNameMappings (toLowerCase (trim rawName)) of
                None \<Rightarrow> Absent | Some mapped \<Rightarrow> Own mapped)"
proof -
  let ?c = "toLowerCase (trim rawName)"
  have "\<not> List.member object_prototype ?c"
  proof
    assume m: "List.member object_prototype ?c"
    then have "kb_get kb ?c \<noteq> None"
      by (simp add: kb_get_def get_property_def split: option.splits)
    then obtain d where d: "kb_get kb ?c = Some d" by blast
    show False
    proof (cases "testAliases kb ?c")
      case None
      with assms d show False
        by (simp add: findBestTestNameMatch_def Let_def exact_def)
    next
      case (Some key)
      with assms show False
        by (simp add: findBestTestNameMatch_def Let_def exact_def)
    qed
  qed
  then show ?thesis
    by (simp add: get_property_def split: option.splits)
qed

lemma determineStatus_numeric:
  "parseFloat parse val = v \<Longrightarrow> v \<noteq> NaN \<Longrightarrow>
     determineStatus parse val (low, high) providedStatus =
       (if num_lt v low then ''low'' else if num_gt v high then ''high'' else ''normal'')"
  by (simp add: determineStatus_def Let_def)

lemma range_cases:
  "low \<le> high \<Longrightarrow>
     (num_gt v high \<longrightarrow> \<not> num_lt v low)
     \<and> (num_ge v low \<and> num_le v high \<longrightarrow> \<not> num_lt v low \<and> \<not> num_gt v high)"
  by (cases v) auto

text \<open>
  C2. Take an extracted record whose name the normalizer resolves to a non-empty key, a
  catalog entry under that key whose reference range is \<open>low\<close> to \<open>high\<close> with
  \<open>low \<le> high\<close>, and a value that \<open>parseFloat\<close> reads as a number \<open>v\<close> other than \<open>NaN\<close>.
  Then \<open>normalizeIndividualTest\<close> returns a record, and its status is \<open>low\<close> when
  \<open>v < low\<close>, \<open>high\<close> when \<open>v > high\<close> and \<open>normal\<close> when \<open>low \<le> v \<le> high\<close>, whatever
  status the extraction provided.
\<close>

theorem normalizeIndividualTest_status:
  assumes "normalizer_normalizeTestName rnd libs kb (x_rawTestName e) = Some key"
    and "key \<noteq> []"
    and "kb_get kb key = Some d"
    and "e_ref_range d = Some (low, high)"
    and "low \<le> high"
    and "parseFloat parse (x_value e) = v"
    and "v \<noteq> NaN"
  shows "\<exists>r c. normalizeIndividualTest rnd parse libs kb e = Some (r, c)
           \<and> n_name r = e_name d
           \<and> n_ref_range r = (low, high)
           \<and> n_value r = v
           \<and> (num_lt v low \<longrightarrow> n_status r = ''low'')
           \<and> (num_gt v high \<longrightarrow> n_status r = ''high'')
           \<and> (num_ge v low \<and> num_le v high \<longrightarrow> n_status r = ''normal'')"
proof -
  have st: "determineStatus parse (x_value e) (low, high) (x_status e) =
      (if num_lt v low then ''low'' else if num_gt v high then ''high'' else ''normal'')"
    using assms(6,7) by (rule determineStatus_numeric)
  have rr: "getReferenceRange d = (low, high)"
    using assms(4) by (simp add: getReferenceRange_def)
  let ?r = "\<lparr>n_name = e_name d, n_value = v, n_unit = e_unit d,
            n_status = (if num_lt v low then ''low'' else if num_gt v high then ''high''
                        else ''normal''),
            n_ref_range = (low, high)\<rparr>"
  have "\<exists>c. normalizeIndividualTest rnd parse libs kb e = Some (?r, c)"
    using assms(1,2,3,6) by (simp add: normalizeIndividualTest_def Let_def rr st)
  then obtain c where run: "normalizeIndividualTest rnd parse libs kb e = Some (?r, c)" ..
  have "(num_lt v low \<longrightarrow> n_status ?r = ''low'')
      \<and> (num_gt v high \<longrightarrow> n_status ?r = ''high'')
      \<and> (num_ge v low \<and> num_le v high \<longrightarrow> n_status ?r = ''normal'')"
    using range_cases [OF assms(5), of v] by simp
  with run show ?thesis
    by (intro exI [of _ ?r] exI [of _ c]) simp
qed

lemma hemoglobin_resolves:
  "normalizer_normalizeTestName exact_arithmetic None sample_kb (x_rawTestName hemoglobin_extracted)
     = Some ''hemoglobin''
   \<and> kb_get sample_kb ''hemoglobin'' = Some hemoglobin_entry
   \<and> e_ref_range hemoglobin_entry = Some (12, 15)
   \<and> parseFloat (\<lambda>s. NaN) (x_value hemoglobin_extracted) = Fin 10.2"
  by code_simp

theorem normalizeIndividualTest_status_witness:
  "normalizer_normalizeTestName exact_arithmetic None sample_kb (x_rawTestName hemoglobin_extracted)
     = Some ''hemoglobin''
   \<and> kb_get sample_kb ''hemoglobin'' = Some hemoglobin_entry
   \<and> e_ref_range hemoglobin_entry = Some (12, 15)
   \<and> parseFloat (\<lambda>s. NaN) (x_value hemoglobin_extracted) = Fin 10.2
   \<and> x_status hemoglobin_extracted = SString ''high''
   \<and> num_lt (Fin 10.2) 12
   \<and> (\<exists>r c. normalizeIndividualTest exact_arithmetic (\<lambda>s. NaN) None sample_kb hemoglobin_extracted
               = Some (r, c)
             \<and> n_status r = ''low'')
   \<and> normalizeIndividualTest exact_arithmetic (\<lambda>s. NaN) None sample_kb hemoglobin_extracted
       = Some (hemoglobin_normalized, 1)"
proof -
  note h = hemoglobin_resolves
  have run: "normalizeIndividualTest exact_arithmetic (\<lambda>s. NaN) None sample_kb hemoglobin_extracted
       = Some (hemoglobin_normalized, 1)"
    by code_simp
  have k: "''hemoglobin'' \<noteq> []" by simp
  have o: "(12 :: real) \<le> 15" by simp
  have n: "Fin 10.2 \<noteq> NaN" by simp
  have lt: "num_lt (Fin 10.2) 12" by simp
  from normalizeIndividualTest_status
    [OF h [THEN conjunct1] k h [THEN conjunct2, THEN conjunct1]
        h [THEN conjunct2, THEN conjunct2, THEN conjunct1] o
        h [THEN conjunct2, THEN conjunct2, THEN conjunct2] n]
  obtain r c where
    "normalizeIndividualTest exact_arithmetic (\<lambda>s. NaN) None sample_kb hemoglobin_extracted
       = Some (r, c)"
    and "num_lt (Fin 10.2) 12 \<longrightarrow> n_status r = ''low''"
    by blast
  with lt have "\<exists>r c. normalizeIndividualTest exact_arithmetic (\<lambda>s. NaN) None sample_kb
      hemoglobin_extracted = Some (r, c) \<and> n_status r = ''low''"
    by blast
  moreover have "x_status hemoglobin_extracted = SString ''high''"
    by (simp add: hemoglobin_extracted_def)
  ultimately show ?thesis
    using h lt run by (intro conjI) simp_all
qed

end
